theory Spec2Isabelle
  imports Complex_Main "HOL-Library.AList"
begin

section \<open>Data model\<close>

subsection \<open>Project status\<close>

text \<open>
  The status of a project is the SQL enum \<open>project_status\<close> of the schema and the
  TypeScript union \<open>ProjectStatus\<close> of \<open>database.types.ts\<close>. One datatype stands for
  both; the two lists below keep the literal strings of each declaration, in the order
  of the source.
\<close>

datatype ProjectStatus =
  Pending | Uploading | Diarizing | Transcribing | Translating | Voice_mapping
  | Dubbing | Mixing | Rendering | Completed | Failed

text \<open>\<open>CREATE TYPE project_status AS ENUM (...)\<close>, schema lines 8 to 20.\<close>

definition project_status :: "string list" where
  "project_status =
     [''pending'', ''uploading'', ''diarizing'', ''transcribing'', ''translating'',
      ''voice_mapping'', ''dubbing'', ''mixing'', ''rendering'', ''completed'', ''failed'']"

text \<open>\<open>export type ProjectStatus = "pending" | ... | "failed"\<close>, database.types.ts lines 9 to 20.\<close>

definition ProjectStatus_literals :: "string list" where
  "ProjectStatus_literals =
     [''pending'', ''uploading'', ''diarizing'', ''transcribing'', ''translating'',
      ''voice_mapping'', ''dubbing'', ''mixing'', ''rendering'', ''completed'', ''failed'']"

text \<open>The string each constructor stands for.\<close>

fun status_string :: "ProjectStatus \<Rightarrow> string" where
  "status_string Pending = ''pending''"
| "status_string Uploading = ''uploading''"
| "status_string Diarizing = ''diarizing''"
| "status_string Transcribing = ''transcribing''"
| "status_string Translating = ''translating''"
| "status_string Voice_mapping = ''voice_mapping''"
| "status_string Dubbing = ''dubbing''"
| "status_string Mixing = ''mixing''"
| "status_string Rendering = ''rendering''"
| "status_string Completed = ''completed''"
| "status_string Failed = ''failed''"

definition all_statuses :: "ProjectStatus list" where
  "all_statuses =
     [Pending, Uploading, Diarizing, Transcribing, Translating, Voice_mapping,
      Dubbing, Mixing, Rendering, Completed, Failed]"

text \<open>Reading a status back from a string: only the eleven literals denote one.\<close>

definition status_of_string :: "string \<Rightarrow> ProjectStatus option" where
  "status_of_string s = map_of (map (\<lambda>x. (status_string x, x)) all_statuses) s"

subsection \<open>Errors\<close>

text \<open>
  What the client code throws: the error object of a failed Supabase table request, of
  a failed storage request, a JavaScript \<open>Error\<close> with its message, the \<open>TypeError\<close>
  of a \<open>fetch\<close> that could not reach the server, and the \<open>SyntaxError\<close> of
  \<open>response.json()\<close> on a body that is not JSON.
\<close>

datatype error =
  PostgrestError | StorageError | Error string | TypeError | SyntaxError

text \<open>
  The outcome of a \<open>fetch\<close>: it rejects (\<open>Threw\<close>), or resolves with a response that
  has the flag \<open>ok\<close> and a body; the body is \<open>None\<close> when \<open>response.json()\<close> rejects.
\<close>

datatype 'a fetch_result = Threw | Resolved bool "'a option"

subsection \<open>Voices\<close>

record Voice =
  v_voice_id :: string
  v_name :: string
  v_category :: string
  v_labels :: "(string \<times> string) list"
  v_preview_url :: "string option"

definition premade :: "string \<Rightarrow> string \<Rightarrow> string \<Rightarrow> Voice" where
  "premade vid nm gender =
     \<lparr>v_voice_id = vid, v_name = nm, v_category = ''premade'',
      v_labels = [(''gender'', gender)], v_preview_url = None\<rparr>"

text \<open>The literal list of \<open>voicesApi.list\<close>, lines 251 to 261.\<close>

definition default_voices :: "Voice list" where
  "default_voices =
     [premade ''21m00Tcm4TlvDq8ikWAM'' ''Rachel'' ''female'',
      premade ''AZnzlk1XvdvUeBnXmlld'' ''Domi'' ''female'',
      premade ''EXAVITQu4vr4xnSDxMaL'' ''Bella'' ''female'',
      premade ''ErXwobaYiN019PkySvjV'' ''Antoni'' ''male'',
      premade ''MF3mGyEYCl7XYWbV9V6O'' ''Elli'' ''female'',
      premade ''TxGEqnHWrfWFTfGW9XjX'' ''Josh'' ''male'',
      premade ''VR6AewLTigWG4xSOukaG'' ''Arnold'' ''male'',
      premade ''pNInz6obpgDQGcFmaJgB'' ''Adam'' ''male'',
      premade ''yoZ06aMxZJJ28mfd3POQ'' ''Sam'' ''male'']"

text \<open>
  \<open>voicesApi.list\<close>: inside \<open>try\<close>, the request is awaited and, when the response is
  ok, \<open>response.json()\<close> is returned without being awaited, so a rejection of that
  promise is the rejection of \<open>list\<close> itself; the \<open>catch\<close> only sees a rejected
  \<open>fetch\<close>. Every other path falls through to the default voices.
\<close>

fun voicesApi_list :: "Voice list fetch_result \<Rightarrow> error + Voice list" where
  "voicesApi_list Threw = Inr default_voices"
| "voicesApi_list (Resolved True (Some voices)) = Inr voices"
| "voicesApi_list (Resolved True None) = Inl SyntaxError"
| "voicesApi_list (Resolved False body) = Inr default_voices"

subsection \<open>Persisted rows\<close>

text \<open>
  The rows of the three tables, with the columns of the schema and of
  \<open>database.types.ts\<close>. Columns that several tables share a name for carry the
  initial of their table: \<open>p_\<close> for projects, \<open>s_\<close> for speakers, \<open>g_\<close> for segments.
  A timestamp is a number of clock ticks, \<open>voice_mapping\<close> (a JSON object from speaker
  label to voice id) the list of its entries in the order of \<open>Object.entries\<close>.
\<close>

record projects_row =
  p_id :: string
  p_name :: string
  p_user_id :: "string option"
  p_original_video_url :: "string option"
  p_original_language :: string
  p_target_language :: string
  p_num_speakers :: int
  p_status :: ProjectStatus
  p_progress :: real
  p_error_message :: "string option"
  p_output_video_url :: "string option"
  p_voice_mapping :: "(string \<times> string) list option"
  p_processing_server_task_id :: "string option"
  p_created_at :: nat
  p_updated_at :: nat
  p_completed_at :: "nat option"

record speakers_row =
  s_id :: string
  s_project_id :: string
  s_speaker_label :: string
  s_name :: "string option"
  s_elevenlabs_voice_id :: "string option"
  s_elevenlabs_voice_name :: "string option"
  s_total_duration_ms :: int
  s_segment_count :: int
  s_sample_audio_url :: "string option"
  s_created_at :: nat

record segments_row =
  g_id :: string
  g_project_id :: string
  g_speaker_id :: "string option"
  g_start_ms :: int
  g_end_ms :: int
  g_original_text :: "string option"
  g_translated_text :: "string option"
  g_dubbed_audio_url :: "string option"
  g_sequence :: int
  g_created_at :: nat

record database =
  tbl_projects :: "projects_row list"
  tbl_speakers :: "speakers_row list"
  tbl_segments :: "segments_row list"

subsection \<open>The project page: polling\<close>

text \<open>
  The project the page holds is what \<open>projectsApi.get\<close> returns (\<open>ProjectWithSpeakers\<close>,
  lines 10 to 12 and 51 to 72 of \<open>lib/api\<close>): the row of the project with \<open>speakers\<close>,
  the rows of its speakers ordered by \<open>speaker_label\<close>. Of the columns of the project
  the handlers of the page read \<open>status\<close> only.
\<close>

record Project =
  status :: ProjectStatus
  speakers :: "speakers_row list"

text \<open>The array of the polling effect, page.tsx lines 85 to 93.\<close>

definition processingStatuses :: "ProjectStatus list" where
  "processingStatuses =
     [Uploading, Diarizing, Transcribing, Translating, Dubbing, Mixing, Rendering]"

text \<open>
  The body of the effect (lines 83 to 98): \<open>True\<close> when it calls \<open>setInterval\<close> and
  returns the cleanup that clears the interval, \<open>False\<close> when it returns without a timer.
\<close>

definition polling_effect :: "Project option \<Rightarrow> bool" where
  "polling_effect project =
     (case project of
        None \<Rightarrow> False
      | Some p \<Rightarrow> status p \<in> set processingStatuses)"

text \<open>
  The observer is the mounted page. React runs the effect after the first render and
  again after a render in which a dependency differs; the dependency that varies is
  \<open>project?.status\<close> (\<open>fetchProject\<close> only depends on the project id of the page). Before
  the effect runs again, and when the page is torn down, the cleanup of the previous run
  clears its interval. \<open>Observing d t\<close>: the dependency of the last run was \<open>d\<close> and
  \<open>t\<close> says whether an interval is set.
\<close>

datatype observer = Torn_down | Observing "ProjectStatus option" bool

definition mount :: "Project option \<Rightarrow> observer" where
  "mount project = Observing (map_option status project) (polling_effect project)"

fun render :: "Project option \<Rightarrow> observer \<Rightarrow> observer" where
  "render project Torn_down = Torn_down"
| "render project (Observing d t) =
     (if map_option status project = d then Observing d t
      else Observing (map_option status project) (polling_effect project))"

fun unmount :: "observer \<Rightarrow> observer" where
  "unmount ob = Torn_down"

fun renders :: "Project option list \<Rightarrow> observer \<Rightarrow> observer" where
  "renders [] ob = ob"
| "renders (p # ps) ob = renders ps (render p ob)"

fun polling_active :: "observer \<Rightarrow> bool" where
  "polling_active Torn_down = False"
| "polling_active (Observing d t) = t"

fun terminal :: "ProjectStatus \<Rightarrow> bool" where
  "terminal Completed = True"
| "terminal Failed = True"
| "terminal s = False"

subsection \<open>Table requests\<close>

text \<open>
  \<open>supabase.from("projects").update(patch).eq("id", pid)\<close>: the patch is applied to
  every row with that id, and the trigger \<open>projects_updated_at\<close> (BEFORE UPDATE, FOR EACH
  ROW) then sets \<open>updated_at\<close> to the time of the request. No column constraint or
  trigger of the schema looks at the status the row had.
\<close>

definition update_projects ::
  "(projects_row \<Rightarrow> projects_row) \<Rightarrow> string \<Rightarrow> nat \<Rightarrow> database \<Rightarrow> database" where
  "update_projects patch pid now db =
     db\<lparr>tbl_projects :=
          map (\<lambda>r. if p_id r = pid then (patch r)\<lparr>p_updated_at := now\<rparr> else r)
            (tbl_projects db)\<rparr>"

text \<open>
  \<open>supabase.from("speakers").update({ elevenlabs_voice_id: voiceId })
  .eq("project_id", pid).eq("speaker_label", lbl)\<close>.
\<close>

definition update_speakers_voice ::
  "string \<Rightarrow> string \<Rightarrow> string \<Rightarrow> database \<Rightarrow> database" where
  "update_speakers_voice pid lbl voiceId db =
     db\<lparr>tbl_speakers :=
          map (\<lambda>r. if s_project_id r = pid \<and> s_speaker_label r = lbl
                    then r\<lparr>s_elevenlabs_voice_id := Some voiceId\<rparr> else r)
            (tbl_speakers db)\<rparr>"

text \<open>
  \<open>DELETE FROM speakers WHERE id = sid\<close>. The foreign key \<open>segments.speaker_id
  REFERENCES speakers(id) ON DELETE SET NULL\<close> clears the reference of every segment
  that pointed to a deleted speaker; the segment itself stays.
\<close>

definition set_null_speaker :: "string list \<Rightarrow> segments_row \<Rightarrow> segments_row" where
  "set_null_speaker dead g =
     (case g_speaker_id g of
        None \<Rightarrow> g
      | Some sid \<Rightarrow> if sid \<in> set dead then g\<lparr>g_speaker_id := None\<rparr> else g)"


text \<open>
  \<open>supabase.from("projects").delete().eq("id", pid)\<close>. \<open>speakers.project_id\<close> and
  \<open>segments.project_id\<close> are declared \<open>REFERENCES projects(id) ON DELETE CASCADE\<close>: the
  speakers and segments of a deleted project go with it, and a segment that survives
  (one of another project) loses its reference to a speaker that went.
\<close>

definition delete_projects :: "string \<Rightarrow> database \<Rightarrow> database" where
  "delete_projects pid db =
     (if pid \<in> set (map p_id (tbl_projects db))
      then
        (let dead = map s_id (filter (\<lambda>r. s_project_id r = pid) (tbl_speakers db))
         in \<lparr>tbl_projects = filter (\<lambda>r. p_id r \<noteq> pid) (tbl_projects db),
             tbl_speakers = filter (\<lambda>r. s_project_id r \<noteq> pid) (tbl_speakers db),
             tbl_segments =
               map (set_null_speaker dead)
                 (filter (\<lambda>g. g_project_id g \<noteq> pid) (tbl_segments db))\<rparr>)
      else db)"

subsection \<open>projectsApi.create\<close>

text \<open>
  The argument of \<open>create\<close>, and what the world answers to its requests: the id that
  \<open>uuid_generate_v4()\<close> draws, the clock at the insert and at the update, whether the
  insert, the update and the cleanup delete go through, and \<open>uploadVideo\<close> (storage is
  outside the model: it returns the public URL or throws).
\<close>

record create_data =
  d_name :: string
  d_original_language :: string
  d_target_language :: string
  d_num_speakers :: int
  d_video :: string

record create_env =
  e_new_id :: string
  e_now_insert :: nat
  e_now_update :: nat
  e_insert_ok :: bool
  e_uploadVideo :: "string \<Rightarrow> string \<Rightarrow> error + string"
  e_update_ok :: bool
  e_cleanup_ok :: bool

text \<open>The row of step 1: the five columns of the insert, the schema's defaults elsewhere.\<close>

definition inserted_row :: "create_env \<Rightarrow> create_data \<Rightarrow> projects_row" where
  "inserted_row env data =
     \<lparr>p_id = e_new_id env,
      p_name = d_name data,
      p_user_id = None,
      p_original_video_url = None,
      p_original_language = d_original_language data,
      p_target_language = d_target_language data,
      p_num_speakers = d_num_speakers data,
      p_status = Uploading,
      p_progress = 0,
      p_error_message = None,
      p_output_video_url = None,
      p_voice_mapping = None,
      p_processing_server_task_id = None,
      p_created_at = e_now_insert env,
      p_updated_at = e_now_insert env,
      p_completed_at = None\<rparr>"

text \<open>
  Step 1, \<open>insert(...).select().single()\<close>: the request may fail, and the primary key
  refuses an id that is taken.
\<close>

definition insert_project ::
  "create_env \<Rightarrow> create_data \<Rightarrow> database \<Rightarrow> (error + projects_row) \<times> database" where
  "insert_project env data db =
     (if \<not> e_insert_ok env \<or> e_new_id env \<in> set (map p_id (tbl_projects db))
      then (Inl PostgrestError, db)
      else (Inr (inserted_row env data),
            db\<lparr>tbl_projects := tbl_projects db @ [inserted_row env data]\<rparr>))"

text \<open>
  The \<open>catch\<close> block: \<open>await supabase.from("projects").delete().eq("id", project.id)\<close>.
  The result of the request is not looked at.
\<close>

definition cleanup :: "create_env \<Rightarrow> string \<Rightarrow> database \<Rightarrow> database" where
  "cleanup env pid db = (if e_cleanup_ok env then delete_projects pid db else db)"

text \<open>\<open>.select().single()\<close> on the rows of a request: an error unless there is exactly one.\<close>

fun single :: "'a list \<Rightarrow> error + 'a" where
  "single [r] = Inr r"
| "single rs = Inl PostgrestError"

definition projectsApi_create ::
  "create_env \<Rightarrow> create_data \<Rightarrow> database \<Rightarrow> (error + projects_row) \<times> database" where
  "projectsApi_create env data db =
     (case insert_project env data db of
        (Inl createError, db0) \<Rightarrow> (Inl createError, db0)
      | (Inr project, db1) \<Rightarrow>
          (case e_uploadVideo env (d_video data) (p_id project) of
             Inl err \<Rightarrow> (Inl err, cleanup env (p_id project) db1)
           | Inr videoUrl \<Rightarrow>
               if \<not> e_update_ok env
               then (Inl PostgrestError, cleanup env (p_id project) db1)
               else
                 (let db2 =
                        update_projects
                          (\<lambda>r. r\<lparr>p_original_video_url := Some videoUrl, p_status := Pending\<rparr>)
                          (p_id project) (e_now_update env) db1
                  in case single (filter (\<lambda>r. p_id r = p_id project) (tbl_projects db2)) of
                       Inl updateError \<Rightarrow> (Inl updateError, cleanup env (p_id project) db2)
                     | Inr updated \<Rightarrow> (Inr updated, db2))))"

subsection \<open>projectsApi.delete\<close>


subsection \<open>projectsApi.assignVoices and startProcessing\<close>

text \<open>
  What the world answers to the requests of \<open>assignVoices\<close>: whether the update of
  the project goes through, whether the update of the speakers of a label does, and
  the clock.
\<close>

record assign_env =
  a_project_ok :: bool
  a_speaker_ok :: "string \<Rightarrow> bool"
  a_now :: nat

text \<open>
  The loop over \<open>Object.entries(mappings)\<close>: one awaited request per entry, whose
  result is dropped. A request that fails changes nothing.
\<close>

fun assign_speakers ::
  "(string \<Rightarrow> bool) \<Rightarrow> string \<Rightarrow> (string \<times> string) list \<Rightarrow> database \<Rightarrow> database" where
  "assign_speakers ok pid [] db = db"
| "assign_speakers ok pid ((lbl, voiceId) # rest) db =
     assign_speakers ok pid rest
       (if ok lbl then update_speakers_voice pid lbl voiceId db else db)"

definition projectsApi_assignVoices ::
  "assign_env \<Rightarrow> string \<Rightarrow> (string \<times> string) list \<Rightarrow> database
     \<Rightarrow> (error + string \<times> (string \<times> string) list) \<times> database" where
  "projectsApi_assignVoices env pid mappings db =
     (if \<not> a_project_ok env then (Inl PostgrestError, db)
      else
        (Inr (''updated'', mappings),
         assign_speakers (a_speaker_ok env) pid mappings
           (update_projects (\<lambda>r. r\<lparr>p_voice_mapping := Some mappings\<rparr>) pid (a_now env) db)))"

text \<open>
  \<open>startProcessing\<close>: \<open>assignVoices\<close>, then the POST to the processing server, whose
  acknowledgement (of some type \<open>'j\<close>) is returned. The server changes the project later,
  on its own.
\<close>

definition projectsApi_startProcessing ::
  "assign_env \<Rightarrow> 'j fetch_result \<Rightarrow> string \<Rightarrow> (string \<times> string) list \<Rightarrow> database
     \<Rightarrow> (error + 'j) \<times> database" where
  "projectsApi_startProcessing env response pid voiceMapping db =
     (case projectsApi_assignVoices env pid voiceMapping db of
        (Inl projectError, db') \<Rightarrow> (Inl projectError, db')
      | (Inr updated, db') \<Rightarrow>
          (case response of
             Threw \<Rightarrow> (Inl TypeError, db')
           | Resolved ok body \<Rightarrow>
               if \<not> ok then (Inl (Error ''Failed to start processing''), db')
               else (case body of
                       None \<Rightarrow> (Inl SyntaxError, db')
                     | Some ack \<Rightarrow> (Inr ack, db'))))"

text \<open>
  \<open>analyze\<close>: the POST to the processing server; an answer that is not ok is thrown as
  an \<open>Error\<close>, the acknowledgement is returned.
\<close>

definition projectsApi_analyze :: "'j fetch_result \<Rightarrow> error + 'j" where
  "projectsApi_analyze response =
     (case response of
        Threw \<Rightarrow> Inl TypeError
      | Resolved ok body \<Rightarrow>
          if \<not> ok then Inl (Error ''Failed to start analysis'')
          else (case body of None \<Rightarrow> Inl SyntaxError | Some ack \<Rightarrow> Inr ack))"

subsection \<open>The project page: voice selection and processing\<close>

text \<open>
  The messages the page shows through \<open>setError\<close>:
  \<open>Select_voice_for_all\<close> is "Vui long chon giong noi cho tat ca nhan vat" (please
  choose a voice for every character, \<open>handleProcess\<close>), \<open>Processing_failed\<close> is
  "Xu ly that bai" (\<open>handleProcess\<close>), \<open>Analysis_failed\<close> is "Phan tich that bai"
  (\<open>handleAnalyze\<close>), \<open>Project_not_found\<close> is "Khong tim thay du an"
  (\<open>fetchProject\<close>); the source writes them with their diacritics.
\<close>

datatype message =
  Select_voice_for_all | Processing_failed | Analysis_failed | Project_not_found

text \<open>The state of the component: the four \<open>useState\<close> cells the handlers write.\<close>

record page =
  project :: "Project option"
  voiceMapping :: "(string \<times> string) list"
  isProcessing :: bool
  page_error :: "message option"

definition initial_page :: page where
  "initial_page = \<lparr>project = None, voiceMapping = [], isProcessing = False, page_error = None\<rparr>"

text \<open>
  The page and \<open>SpeakerCard\<close> read \<open>speaker.label\<close> and \<open>speaker.voice_id\<close>
  (page.tsx lines 51, 52 and 307, SpeakerCard.tsx lines 65 and 118). The rows that
  \<open>projectsApi.get\<close> returns have the columns \<open>speaker_label\<close> and
  \<open>elevenlabs_voice_id\<close> (database.types.ts lines 82 to 93) and no property of those
  two names, so both reads give \<open>undefined\<close>, here \<open>None\<close>.
\<close>

definition label :: "speakers_row \<Rightarrow> string option" where
  "label speaker = None"

definition voice_id :: "speakers_row \<Rightarrow> string option" where
  "voice_id speaker = None"

text \<open>
  A value used as the key of a property of an object: \<open>undefined\<close> becomes the string
  "undefined".
\<close>

fun property_key :: "string option \<Rightarrow> string" where
  "property_key None = ''undefined''"
| "property_key (Some k) = k"

text \<open>
  \<open>fetchProject\<close>, lines 43 to 62, on the answer of \<open>projectsApi.get\<close>: the mapping is
  rebuilt from the speakers whose \<open>voice_id\<close> is truthy (neither \<open>undefined\<close>, null nor
  the empty string). Writing a key of a JavaScript object replaces the value of a key
  that is there and appends a new key otherwise, as \<open>AList.update\<close> does.
\<close>

definition fetched_mapping :: "speakers_row list \<Rightarrow> (string \<times> string) list" where
  "fetched_mapping spks =
     fold (\<lambda>speaker mapping.
             case voice_id speaker of
               None \<Rightarrow> mapping
             | Some v \<Rightarrow>
                 if v = [] then mapping
                 else AList.update (property_key (label speaker)) v mapping)
       spks []"

definition fetchProject :: "error + Project \<Rightarrow> page \<Rightarrow> page" where
  "fetchProject got st =
     (case got of
        Inr data \<Rightarrow> st\<lparr>project := Some data, voiceMapping := fetched_mapping (speakers data)\<rparr>
      | Inl err \<Rightarrow> st\<lparr>page_error := Some Project_not_found\<rparr>)"

text \<open>
  \<open>handleVoiceSelect\<close>, lines 102 to 107: \<open>{ ...prev, [speakerLabel]: voiceId }\<close>, with
  the value the card passes as \<open>speakerLabel\<close>.
\<close>

definition handleVoiceSelect :: "string option \<Rightarrow> string \<Rightarrow> page \<Rightarrow> page" where
  "handleVoiceSelect speakerLabel voiceId st =
     st\<lparr>voiceMapping := AList.update (property_key speakerLabel) voiceId (voiceMapping st)\<rparr>"

text \<open>
  What the world answers to \<open>handleProcess\<close>: the answers to \<open>assignVoices\<close>, the
  response of the processing server, and the answer to the \<open>fetchProject\<close> that follows.
\<close>

record 'j process_env =
  h_assign :: assign_env
  h_response :: "'j fetch_result"
  h_refetch :: "error + Project"

text \<open>
  \<open>handleProcess\<close>, lines 123 to 138. \<open>Object.keys(voiceMapping).length !==
  project?.speakers.length\<close> is true when there is no project (a number is never
  \<open>undefined\<close>). \<open>isProcessing\<close> is set and, in \<open>finally\<close>, cleared.
\<close>

definition handleProcess ::
  "'j process_env \<Rightarrow> string \<Rightarrow> page \<Rightarrow> database \<Rightarrow> page \<times> database" where
  "handleProcess env projectId st db =
     (if (case project st of
            None \<Rightarrow> True
          | Some p \<Rightarrow> length (map fst (voiceMapping st)) \<noteq> length (speakers p))
      then (st\<lparr>page_error := Some Select_voice_for_all\<rparr>, db)
      else
        (case projectsApi_startProcessing (h_assign env) (h_response env) projectId
                (voiceMapping st) db of
           (Inr ack, db') \<Rightarrow> ((fetchProject (h_refetch env) st)\<lparr>isProcessing := False\<rparr>, db')
         | (Inl err, db') \<Rightarrow>
             (st\<lparr>page_error := Some Processing_failed, isProcessing := False\<rparr>, db')))"

text \<open>
  \<open>handleAnalyze\<close>, lines 110 to 120, on the response of the processing server and the
  answer to the \<open>fetchProject\<close> that follows.
\<close>

definition handleAnalyze :: "'j fetch_result \<Rightarrow> error + Project \<Rightarrow> page \<Rightarrow> page" where
  "handleAnalyze response refetch st =
     (case projectsApi_analyze response of
        Inr ack \<Rightarrow> (fetchProject refetch st)\<lparr>isProcessing := False\<rparr>
      | Inl err \<Rightarrow> st\<lparr>page_error := Some Analysis_failed, isProcessing := False\<rparr>)"

text \<open>
  What happens on the page of the project \<open>projectId\<close>, in order: an answer to
  \<open>fetchProject\<close> (the first load or a poll), the choice of a voice on the card of the
  \<open>i\<close>-th speaker the page shows (\<open>onVoiceSelect(speaker.label, voice.voice_id)\<close> in
  \<open>SpeakerCard\<close>; the cards are \<open>project.speakers.map(...)\<close>), a click on the button of
  \<open>handleAnalyze\<close>, and a click on the button of \<open>handleProcess\<close> with the database as
  it is at that moment (the processing server writes to it on its own).
\<close>

datatype 'j page_event =
  Fetched "error + Project"
  | Voice_chosen nat string
  | Analyze_clicked "'j fetch_result" "error + Project"
  | Process_clicked "'j process_env" database

fun page_step :: "string \<Rightarrow> 'j page_event \<Rightarrow> page \<Rightarrow> page" where
  "page_step projectId (Fetched got) st = fetchProject got st"
| "page_step projectId (Voice_chosen i voiceId) st =
     (case project st of
        None \<Rightarrow> st
      | Some p \<Rightarrow>
          if i < length (speakers p)
          then handleVoiceSelect (label (speakers p ! i)) voiceId st
          else st)"
| "page_step projectId (Analyze_clicked response refetch) st = handleAnalyze response refetch st"
| "page_step projectId (Process_clicked env db) st = fst (handleProcess env projectId st db)"

fun page_run :: "string \<Rightarrow> 'j page_event list \<Rightarrow> page \<Rightarrow> page" where
  "page_run projectId [] st = st"
| "page_run projectId (ev # evs) st = page_run projectId evs (page_step projectId ev st)"


subsection \<open>The forward order of the statuses\<close>

text \<open>\<open>statusOrder\<close> of the progress tracker, lines 35 to 46; \<open>failed\<close> is not in it.\<close>

definition statusOrder :: "ProjectStatus list" where
  "statusOrder =
     [Pending, Uploading, Diarizing, Transcribing, Translating, Voice_mapping,
      Dubbing, Mixing, Rendering, Completed]"

text \<open>\<open>Array.prototype.indexOf\<close>: the first position of the element, or \<open>-1\<close>.\<close>

fun indexOf :: "'a list \<Rightarrow> 'a \<Rightarrow> int" where
  "indexOf [] x = - 1"
| "indexOf (y # ys) x =
     (if y = x then 0 else (if indexOf ys x < 0 then - 1 else indexOf ys x + 1))"

text \<open>
  \<open>X\<close> is the immediate successor of \<open>S\<close> in the forward order: both are in
  \<open>statusOrder\<close> and \<open>X\<close> stands one place after \<open>S\<close>.
\<close>

definition immediate_successor :: "ProjectStatus \<Rightarrow> ProjectStatus \<Rightarrow> bool" where
  "immediate_successor S X =
     (0 \<le> indexOf statusOrder S \<and> indexOf statusOrder X = indexOf statusOrder S + 1)"

text \<open>The nine steps of the forward order, written out.\<close>

definition forward_steps :: "(ProjectStatus \<times> ProjectStatus) list" where
  "forward_steps =
     [(Pending, Uploading), (Uploading, Diarizing), (Diarizing, Transcribing),
      (Transcribing, Translating), (Translating, Voice_mapping), (Voice_mapping, Dubbing),
      (Dubbing, Mixing), (Mixing, Rendering), (Rendering, Completed)]"

subsection \<open>The segment ledger\<close>

text \<open>
  The sources hold the tables of speakers and segments, with the columns
  \<open>total_duration_ms\<close> and \<open>segment_count\<close> (schema, lines 53 to 93); the operations
  that write them run on the processing server, which is not among the sources. They
  are modelled from sections 3, 4.3 and 7 of the specification, on the rows of the schema.
\<close>

text \<open>
  Modelled from the spec: the errors of the ledger operations (missing from the
  sources). \<open>UnknownSpeakerError\<close> and \<open>StageMismatchError\<close> are named in section 7;
  the specification names no error for a segment that \<open>appendSegments\<close> must not take,
  \<open>Rejected_segment\<close> stands for it.
\<close>

datatype ledger_error = UnknownSpeakerError | StageMismatchError | Rejected_segment

text \<open>
  Modelled from the spec: the duration of a segment (missing from the sources),
  \<open>end_ms - start_ms\<close>.
\<close>

definition duration :: "segments_row \<Rightarrow> int" where
  "duration g = g_end_ms g - g_start_ms g"

text \<open>
  Modelled from the spec: "all Segments referencing this speaker" (section 3; no query
  of the sources reads the segments), the segments whose \<open>speaker_id\<close> is the id
  \<open>sid\<close>.
\<close>

definition referencing :: "database \<Rightarrow> string \<Rightarrow> segments_row list" where
  "referencing db sid = filter (\<lambda>g. g_speaker_id g = Some sid) (tbl_segments db)"

text \<open>
  Modelled from the spec: the incremental adjustment of the statistics of one speaker
  (missing from the sources), "decrement/increment by the segment's duration, never a
  full recompute".
\<close>

definition adjust_speaker :: "string \<Rightarrow> int \<Rightarrow> int \<Rightarrow> speakers_row list \<Rightarrow> speakers_row list" where
  "adjust_speaker sid ms n rs =
     map (\<lambda>r. if s_id r = sid
               then r\<lparr>s_total_duration_ms := s_total_duration_ms r + ms,
                      s_segment_count := s_segment_count r + n\<rparr>
               else r) rs"

text \<open>
  Modelled from the spec: \<open>reassignSpeaker(segment, newSpeakerId)\<close> (missing from the
  sources) "updates the back-reference and incrementally adjusts both the losing and
  gaining Speaker's total_duration_ms/segment_count". A speaker that does not exist is
  an \<open>UnknownSpeakerError\<close>, with no write; for an id that is no segment of the ledger
  there is nothing to reassign.
\<close>

definition reassignSpeaker :: "string \<Rightarrow> string \<Rightarrow> database \<Rightarrow> ledger_error + database" where
  "reassignSpeaker gid newSpeakerId db =
     (if newSpeakerId \<notin> set (map s_id (tbl_speakers db)) then Inl UnknownSpeakerError
      else
        (case find (\<lambda>g. g_id g = gid) (tbl_segments db) of
           None \<Rightarrow> Inr db
         | Some g \<Rightarrow>
             (let losing =
                    (case g_speaker_id g of
                       None \<Rightarrow> tbl_speakers db
                     | Some old \<Rightarrow> adjust_speaker old (- duration g) (- 1) (tbl_speakers db));
                  gaining = adjust_speaker newSpeakerId (duration g) 1 losing
              in Inr (db\<lparr>tbl_speakers := gaining,
                         tbl_segments :=
                           map (\<lambda>x. if g_id x = gid then x\<lparr>g_speaker_id := Some newSpeakerId\<rparr>
                                     else x)
                             (tbl_segments db)\<rparr>))))"

text \<open>
  Modelled from the spec: the stage a project is in (missing from the sources), the
  status of its row.
\<close>

definition stage_of :: "database \<Rightarrow> string \<Rightarrow> ProjectStatus option" where
  "stage_of db pid = map_option p_status (find (\<lambda>r. p_id r = pid) (tbl_projects db))"

text \<open>
  Modelled from the spec: the field-level update of a segment that belongs to one stage
  (missing from the sources), "field-level updates scoped to one stage each; reject with
  StageMismatchError if called while the project is not in the corresponding stage". For
  an id that is no segment of the ledger there is nothing to write.
\<close>

definition set_field ::
  "ProjectStatus \<Rightarrow> (segments_row \<Rightarrow> segments_row) \<Rightarrow> string \<Rightarrow> database
     \<Rightarrow> ledger_error + database" where
  "set_field stage write gid db =
     (case find (\<lambda>g. g_id g = gid) (tbl_segments db) of
        None \<Rightarrow> Inr db
      | Some g \<Rightarrow>
          if stage_of db (g_project_id g) \<noteq> Some stage then Inl StageMismatchError
          else Inr (db\<lparr>tbl_segments :=
                         map (\<lambda>x. if g_id x = gid then write x else x) (tbl_segments db)\<rparr>))"

text \<open>
  Modelled from the spec: \<open>setTranslation(segment, text)\<close> (missing from the sources),
  the update of \<open>translated_text\<close>, of the stage translating.
\<close>

definition setTranslation :: "string \<Rightarrow> string \<Rightarrow> database \<Rightarrow> ledger_error + database" where
  "setTranslation gid txt db =
     set_field Translating (\<lambda>x. x\<lparr>g_translated_text := Some txt\<rparr>) gid db"

text \<open>
  Modelled from the spec: \<open>setDubbedAudio(segment, url)\<close> (missing from the sources), the
  update of \<open>dubbed_audio_url\<close>, of the stage dubbing.
\<close>

definition setDubbedAudio :: "string \<Rightarrow> string \<Rightarrow> database \<Rightarrow> ledger_error + database" where
  "setDubbedAudio gid url db =
     set_field Dubbing (\<lambda>x. x\<lparr>g_dubbed_audio_url := Some url\<rparr>) gid db"

text \<open>
  Modelled from the spec: the step of \<open>appendSegments\<close> for one segment (missing from
  the sources): "each new segment's sequence must exceed all
  previously assigned sequences for the project and start_ms < end_ms". The segment is a
  new row of that project (its id is not taken), and a speaker it names exists. The
  statistics of the speaker are "derived, maintained incrementally" (section 3), so
  the speaker a new segment names gains it.
\<close>

definition append_segment :: "string \<Rightarrow> segments_row \<Rightarrow> database \<Rightarrow> ledger_error + database" where
  "append_segment pid g db =
     (if g_project_id g \<noteq> pid \<or> g_id g \<in> set (map g_id (tbl_segments db))
         \<or> \<not> g_start_ms g < g_end_ms g
         \<or> \<not> list_all (\<lambda>x. g_sequence x < g_sequence g)
                (filter (\<lambda>x. g_project_id x = pid) (tbl_segments db))
      then Inl Rejected_segment
      else
        (case g_speaker_id g of
           None \<Rightarrow> Inr (db\<lparr>tbl_segments := tbl_segments db @ [g]\<rparr>)
         | Some sid \<Rightarrow>
             if sid \<notin> set (map s_id (tbl_speakers db)) then Inl UnknownSpeakerError
             else Inr (db\<lparr>tbl_speakers := adjust_speaker sid (duration g) 1 (tbl_speakers db),
                          tbl_segments := tbl_segments db @ [g]\<rparr>)))"

text \<open>
  Modelled from the spec: \<open>appendSegments(project, segments)\<close> (missing from the
  sources), the segments one after the other; a segment that is refused refuses the whole
  call, with no partial write.
\<close>

fun appendSegments :: "string \<Rightarrow> segments_row list \<Rightarrow> database \<Rightarrow> ledger_error + database" where
  "appendSegments pid [] db = Inr db"
| "appendSegments pid (g # gs) db =
     (case append_segment pid g db of
        Inl e \<Rightarrow> Inl e
      | Inr db' \<Rightarrow> appendSegments pid gs db')"

text \<open>
  Modelled from the spec: the operations of the ledger (section 4.3; missing from the
  sources), as calls with their arguments.
\<close>

datatype ledger_op =
  AppendSegments string "segments_row list"
  | ReassignSpeaker string string
  | SetTranslation string string
  | SetDubbedAudio string string

text \<open>Modelled from the spec: one call of a ledger operation (missing from the sources).\<close>

fun ledger_step :: "ledger_op \<Rightarrow> database \<Rightarrow> ledger_error + database" where
  "ledger_step (AppendSegments pid gs) db = appendSegments pid gs db"
| "ledger_step (ReassignSpeaker gid sid) db = reassignSpeaker gid sid db"
| "ledger_step (SetTranslation gid txt) db = setTranslation gid txt db"
| "ledger_step (SetDubbedAudio gid url) db = setDubbedAudio gid url db"

text \<open>
  Modelled from the spec: a sequence of ledger operations (missing from the sources).
  A rejected operation writes nothing ("rejected synchronously, no partial write"),
  and the next one runs on the ledger as it was.
\<close>

fun run_ledger :: "ledger_op list \<Rightarrow> database \<Rightarrow> database" where
  "run_ledger [] db = db"
| "run_ledger (x # xs) db =
     run_ledger xs (case ledger_step x db of Inl e \<Rightarrow> db | Inr db' \<Rightarrow> db')"

text \<open>
  Modelled from the spec: the invariant of section 3 for one speaker row (nothing in the
  sources states it), "total_duration_ms = sum of durations of all Segments referencing
  this speaker; segment_count = count of same".
\<close>

definition statistics_ok :: "database \<Rightarrow> speakers_row \<Rightarrow> bool" where
  "statistics_ok db r =
     (s_total_duration_ms r = sum_list (map duration (referencing db (s_id r)))
      \<and> s_segment_count r = int (length (referencing db (s_id r))))"

text \<open>
  A ledger in order: the ids of the speakers and of the segments are distinct (the
  primary keys of the schema) and every speaker row has its statistics right.
\<close>

definition ledger_consistent :: "database \<Rightarrow> bool" where
  "ledger_consistent db =
     (distinct (map s_id (tbl_speakers db)) \<and> distinct (map g_id (tbl_segments db))
      \<and> list_all (statistics_ok db) (tbl_speakers db))"

text \<open>
  What the segment \<open>g\<close> adds to a statistic of the speaker \<open>sid\<close>: its weight \<open>w g\<close>
  (its duration, or one) when it references the speaker, nothing otherwise.
\<close>

definition credit :: "(segments_row \<Rightarrow> int) \<Rightarrow> string \<Rightarrow> segments_row \<Rightarrow> int" where
  "credit w sid g = (if g_speaker_id g = Some sid then w g else 0)"

subsection \<open>Example rows\<close>

text \<open>Rows for the concrete runs below: the given columns, the schema's defaults elsewhere.\<close>

definition example_project :: "string \<Rightarrow> ProjectStatus \<Rightarrow> projects_row" where
  "example_project pid st =
     \<lparr>p_id = pid, p_name = ''demo'', p_user_id = None, p_original_video_url = None,
      p_original_language = ''en'', p_target_language = ''vi'', p_num_speakers = 2,
      p_status = st, p_progress = 0, p_error_message = None, p_output_video_url = None,
      p_voice_mapping = None, p_processing_server_task_id = None,
      p_created_at = 0, p_updated_at = 0, p_completed_at = None\<rparr>"

definition example_speaker :: "string \<Rightarrow> string \<Rightarrow> string \<Rightarrow> speakers_row" where
  "example_speaker sid pid lbl =
     \<lparr>s_id = sid, s_project_id = pid, s_speaker_label = lbl, s_name = None,
      s_elevenlabs_voice_id = None, s_elevenlabs_voice_name = None,
      s_total_duration_ms = 0, s_segment_count = 0, s_sample_audio_url = None,
      s_created_at = 0\<rparr>"

definition example_segment ::
  "string \<Rightarrow> string \<Rightarrow> string option \<Rightarrow> int \<Rightarrow> int \<Rightarrow> int \<Rightarrow> segments_row" where
  "example_segment gid pid spk start_ms end_ms sq =
     \<lparr>g_id = gid, g_project_id = pid, g_speaker_id = spk, g_start_ms = start_ms,
      g_end_ms = end_ms, g_original_text = None, g_translated_text = None,
      g_dubbed_audio_url = None, g_sequence = sq, g_created_at = 0\<rparr>"

text \<open>One project in voice_mapping with the speakers spk0 and spk1 and no segment.\<close>

definition two_speakers_db :: database where
  "two_speakers_db =
     \<lparr>tbl_projects = [example_project ''p1'' Voice_mapping],
      tbl_speakers = [example_speaker ''s0'' ''p1'' ''spk0'', example_speaker ''s1'' ''p1'' ''spk1''],
      tbl_segments = []\<rparr>"

text \<open>What the loop of \<open>assignVoices\<close> does to one speaker row, for the entries \<open>m\<close>.\<close>

definition voice_patch ::
  "string \<Rightarrow> (string \<times> string) list \<Rightarrow> speakers_row \<Rightarrow> speakers_row" where
  "voice_patch pid m r =
     (if s_project_id r = pid
      then (case map_of m (s_speaker_label r) of
              None \<Rightarrow> r
            | Some v \<Rightarrow> r\<lparr>s_elevenlabs_voice_id := Some v\<rparr>)
      else r)"

text \<open>Answers of the world to \<open>assignVoices\<close>, and two mappings, for the concrete runs.\<close>

definition requests_ok :: assign_env where
  "requests_ok = \<lparr>a_project_ok = True, a_speaker_ok = (\<lambda>l. True), a_now = 7\<rparr>"

definition project_request_fails :: assign_env where
  "project_request_fails = \<lparr>a_project_ok = False, a_speaker_ok = (\<lambda>l. True), a_now = 7\<rparr>"

definition second_speaker_fails :: assign_env where
  "second_speaker_fails =
     \<lparr>a_project_ok = True, a_speaker_ok = (\<lambda>l. l = ''spk0''), a_now = 7\<rparr>"

definition both_voices :: "(string \<times> string) list" where
  "both_voices = [(''spk0'', ''v1''), (''spk1'', ''v2'')]"

definition unknown_voice :: "(string \<times> string) list" where
  "unknown_voice = [(''spk0'', ''v1''), (''spk9'', ''v2'')]"

text \<open>An empty database, an argument of \<open>create\<close> and answers of the world to it.\<close>

definition empty_db :: database where
  "empty_db = \<lparr>tbl_projects = [], tbl_speakers = [], tbl_segments = []\<rparr>"

definition demo_data :: create_data where
  "demo_data =
     \<lparr>d_name = ''clip'', d_original_language = ''en'', d_target_language = ''vi'',
      d_num_speakers = 2, d_video = ''clip.mp4''\<rparr>"

definition create_ok :: create_env where
  "create_ok =
     \<lparr>e_new_id = ''p1'', e_now_insert = 1, e_now_update = 2, e_insert_ok = True,
      e_uploadVideo = (\<lambda>file pid. Inr (''videos/'' @ pid @ ''/'' @ file)),
      e_update_ok = True, e_cleanup_ok = True\<rparr>"

definition upload_fails :: create_env where
  "upload_fails = create_ok\<lparr>e_uploadVideo := (\<lambda>file pid. Inl StorageError)\<rparr>"

definition update_fails :: create_env where
  "update_fails = create_ok\<lparr>e_update_ok := False\<rparr>"

definition create_second :: create_env where
  "create_second = create_ok\<lparr>e_new_id := ''p2''\<rparr>"

definition upload_and_cleanup_fail :: create_env where
  "upload_and_cleanup_fail = upload_fails\<lparr>e_cleanup_ok := False\<rparr>"

text \<open>
  The same project with two segments, one of each speaker, and the statistics of the
  speakers in line with them.
\<close>

definition ledger_db :: database where
  "ledger_db =
     \<lparr>tbl_projects = [example_project ''p1'' Voice_mapping],
      tbl_speakers =
        [(example_speaker ''s0'' ''p1'' ''spk0'')\<lparr>s_total_duration_ms := 2000, s_segment_count := 1\<rparr>,
         (example_speaker ''s1'' ''p1'' ''spk1'')\<lparr>s_total_duration_ms := 1500, s_segment_count := 1\<rparr>],
      tbl_segments =
        [example_segment ''g0'' ''p1'' (Some ''s0'') 1000 3000 1,
         example_segment ''g1'' ''p1'' (Some ''s1'') 3000 4500 2]\<rparr>"








text \<open>
  A run of the ledger on that project: the first segment goes to the second speaker, a
  translation is refused (the project is not translating), a third segment is appended.
\<close>

definition ledger_run :: "ledger_op list" where
  "ledger_run =
     [ReassignSpeaker ''g0'' ''s1'',
      SetTranslation ''g1'' ''xin chao'',
      AppendSegments ''p1'' [example_segment ''g2'' ''p1'' (Some ''s0'') 5000 5400 3]]"

section \<open>Properties\<close>

subsection \<open>Status values\<close>

lemma status_of_string_status_string: "status_of_string (status_string x) = Some x"
  by (cases x) (simp_all add: status_of_string_def all_statuses_def)

lemma status_of_string_Some: "status_of_string s = Some x \<Longrightarrow> status_string x = s"
  by (auto simp: status_of_string_def all_statuses_def split: if_splits)

lemma status_string_in_enum: "status_string x \<in> set project_status"
  by (cases x) (simp_all add: project_status_def)

lemma enum_has_status: "s \<in> set project_status \<Longrightarrow> \<exists>x. status_string x = s"
proof -
  assume "s \<in> set project_status"
  then have "s \<in> status_string ` set all_statuses"
    by (simp add: project_status_def all_statuses_def)
  then show ?thesis by blast
qed

text \<open>
  C7. The status values are exactly the eleven strings pending, uploading, diarizing,
  transcribing, translating, voice_mapping, dubbing, mixing, rendering, completed and
  failed: the enum of the schema and the union of the client are the same list of
  eleven distinct strings, every status stands for one of them, different statuses for
  different strings, and a string denotes a status if and only if it is one of the
  eleven.
\<close>

theorem status_values_exact:
  "project_status = ProjectStatus_literals
   \<and> project_status =
       [''pending'', ''uploading'', ''diarizing'', ''transcribing'', ''translating'',
        ''voice_mapping'', ''dubbing'', ''mixing'', ''rendering'', ''completed'', ''failed'']
   \<and> length project_status = 11
   \<and> distinct project_status
   \<and> map status_string all_statuses = project_status
   \<and> (\<forall>x. x \<in> set all_statuses)
   \<and> (\<forall>s. (\<exists>x. status_of_string s = Some x) = (s \<in> set project_status))
   \<and> (\<forall>x. status_of_string (status_string x) = Some x)"
proof -
  have a: "project_status = ProjectStatus_literals"
    by (simp add: project_status_def ProjectStatus_literals_def)
  have b: "length project_status = 11" "distinct project_status"
    by (simp_all add: project_status_def)
  have c: "map status_string all_statuses = project_status"
    by (simp add: all_statuses_def project_status_def)
  have d: "x \<in> set all_statuses" for x
    by (cases x) (simp_all add: all_statuses_def)
  have e: "(\<exists>x. status_of_string s = Some x) = (s \<in> set project_status)" for s
  proof
    assume "\<exists>x. status_of_string s = Some x"
    then obtain x where "status_of_string s = Some x" ..
    then have "status_string x = s" by (rule status_of_string_Some)
    then show "s \<in> set project_status" using status_string_in_enum [of x] by simp
  next
    assume "s \<in> set project_status"
    then obtain x where "status_string x = s" using enum_has_status by blast
    then show "\<exists>x. status_of_string s = Some x"
      using status_of_string_status_string [of x] by auto
  qed
  show ?thesis
    using a b c d e status_of_string_status_string
    by (simp add: project_status_def)
qed

theorem status_values_exact_witness:
  "status_of_string ''voice_mapping'' = Some Voice_mapping
   \<and> status_of_string ''queued'' = None
   \<and> length project_status = 11"
proof -
  from status_values_exact have n: "length project_status = 11"
    by blast
  have "status_of_string ''voice_mapping'' = Some Voice_mapping"
    by (simp add: status_of_string_def all_statuses_def)
  moreover have "status_of_string ''queued'' = None"
    by (simp add: status_of_string_def all_statuses_def)
  ultimately show ?thesis using n by blast
qed

subsection \<open>Polling\<close>

lemma polling_effect_deps:
  "map_option status p = map_option status c \<Longrightarrow> polling_effect p = polling_effect c"
  by (cases p; cases c) (simp_all add: polling_effect_def)

lemma render_mount: "render p (mount c) = mount p"
  using polling_effect_deps [of p c] by (auto simp: mount_def)

lemma renders_mount: "renders ps (mount c) = mount (last (c # ps))"
  by (induction ps arbitrary: c) (simp_all add: render_mount)

lemma processing_iff:
  "(s \<in> set processingStatuses) =
     (\<not> terminal s \<and> s \<noteq> Pending \<and> s \<noteq> Voice_mapping)"
  by (cases s) (simp_all add: processingStatuses_def)

text \<open>
  C6, as amended. The page is mounted with the project \<open>p0\<close> and then rendered with the
  projects \<open>ps\<close>, one after the other. The polling timer is set exactly while the project
  last seen has a status that is neither terminal (completed, failed), nor pending, nor
  voice_mapping, that is one of uploading, diarizing, transcribing, translating, dubbing,
  mixing and rendering; it is cleared once the page is torn down.
\<close>

theorem polling_active_iff:
  "polling_active (renders ps (mount p0)) =
     (\<exists>p. last (p0 # ps) = Some p
          \<and> \<not> terminal (status p) \<and> status p \<noteq> Pending \<and> status p \<noteq> Voice_mapping)
   \<and> \<not> polling_active (unmount (renders ps (mount p0)))"
proof -
  have "polling_active (mount q) =
          (\<exists>p. q = Some p \<and> \<not> terminal (status p) \<and> status p \<noteq> Pending
               \<and> status p \<noteq> Voice_mapping)" for q
    by (cases q) (simp_all add: mount_def polling_effect_def processing_iff)
  then show ?thesis
    by (simp only: renders_mount unmount.simps polling_active.simps) simp
qed

text \<open>
  A page that sees pending and then diarizing polls; one that sees diarizing and then
  completed does not.
\<close>

theorem polling_active_iff_witness:
  "polling_active
     (renders [Some \<lparr>status = Pending, speakers = []\<rparr>, Some \<lparr>status = Diarizing, speakers = []\<rparr>]
        (mount None))
   \<and> \<not> polling_active
       (renders [Some \<lparr>status = Diarizing, speakers = []\<rparr>, Some \<lparr>status = Completed, speakers = []\<rparr>]
          (mount None))"
  using polling_active_iff
    [of "[Some \<lparr>status = Pending, speakers = []\<rparr>, Some \<lparr>status = Diarizing, speakers = []\<rparr>]" None]
    polling_active_iff
    [of "[Some \<lparr>status = Diarizing, speakers = []\<rparr>, Some \<lparr>status = Completed, speakers = []\<rparr>]" None]
  by simp

text \<open>
  C6 as stated fails: voice_mapping is neither terminal nor pending, and a page whose
  project goes from translating to voice_mapping has no timer.
\<close>

theorem polling_voice_mapping_counterexample:
  "\<not> terminal Voice_mapping \<and> Voice_mapping \<noteq> Pending
   \<and> \<not> polling_active
       (renders [Some \<lparr>status = Translating, speakers = []\<rparr>,
                 Some \<lparr>status = Voice_mapping, speakers = []\<rparr>] (mount None))"
  by (simp add: mount_def polling_effect_def processingStatuses_def)

subsection \<open>The list of voices\<close>

text \<open>
  C10, as amended. \<open>voicesApi.list\<close> returns the list of the server as it is when the
  request resolves with an ok response whose body parses, and the nine default voices
  when the request rejects or the response is not ok; the default list is not empty.
\<close>

theorem voicesApi_list_cases:
  "voicesApi_list (Resolved True (Some voices)) = Inr voices
   \<and> voicesApi_list Threw = Inr default_voices
   \<and> voicesApi_list (Resolved False body) = Inr default_voices
   \<and> length default_voices = 9
   \<and> default_voices \<noteq> []"
  by (simp add: default_voices_def)

text \<open>
  C10 as stated fails: when the server answers ok with an empty list of voices, the
  list returned is empty.
\<close>

theorem voicesApi_list_empty_counterexample:
  "voicesApi_list (Resolved True (Some [])) = Inr []"
  by simp

subsection \<open>Assigning voices\<close>

lemmas example_rows =
  two_speakers_db_def example_project_def example_speaker_def example_segment_def

lemma assign_speakers_projects:
  "tbl_projects (assign_speakers ok pid m db) = tbl_projects db"
  by (induction m arbitrary: db) (auto simp: update_speakers_voice_def)

lemma assign_speakers_segments:
  "tbl_segments (assign_speakers ok pid m db) = tbl_segments db"
  by (induction m arbitrary: db) (auto simp: update_speakers_voice_def)

lemma voice_patch_Nil: "voice_patch pid [] r = r"
  by (simp add: voice_patch_def)

lemma assign_speakers_speakers:
  "distinct (map fst m) \<Longrightarrow>
   tbl_speakers (assign_speakers ok pid m db) =
     map (voice_patch pid (filter (\<lambda>e. ok (fst e)) m)) (tbl_speakers db)"
proof (induction m arbitrary: db)
  case Nil
  show ?case by (simp add: voice_patch_Nil map_idI)
next
  case (Cons e m)
  obtain l v where e: "e = (l, v)" by (cases e)
  from Cons.prems e have nl: "l \<notin> fst ` set m" and d: "distinct (map fst m)" by auto
  have none: "map_of (filter (\<lambda>e. ok (fst e)) m) l = None"
    using nl by (auto simp: map_of_eq_None_iff)
  show ?case
  proof (cases "ok l")
    case True
    have "voice_patch pid (filter (\<lambda>e. ok (fst e)) m)
            (if s_project_id r = pid \<and> s_speaker_label r = l
             then r\<lparr>s_elevenlabs_voice_id := Some v\<rparr> else r)
          = voice_patch pid ((l, v) # filter (\<lambda>e. ok (fst e)) m) r" for r
      using none by (auto simp: voice_patch_def split: option.splits)
    then show ?thesis
      using True e Cons.IH [OF d] by (simp add: update_speakers_voice_def)
  next
    case False
    then show ?thesis using e Cons.IH [OF d] by simp
  qed
qed

text \<open>
  C1, as amended. \<open>assignVoices\<close> writes the mapping of the project first and then the
  voice of the speakers, one request per entry, with no transaction around them. When
  the update of the project fails, it throws and nothing is written. When every request
  goes through (the keys of a mapping are distinct), it returns \<open>updated\<close> and all
  assignments are there: the project has the mapping, every speaker of the project
  whose label is a key has the voice of that key, and nothing else has changed.
\<close>

theorem assignVoices_all_or_none:
  "(\<not> a_project_ok env \<longrightarrow>
      projectsApi_assignVoices env pid m db = (Inl PostgrestError, db))
   \<and> (a_project_ok env \<and> (\<forall>l \<in> set (map fst m). a_speaker_ok env l) \<and> distinct (map fst m) \<longrightarrow>
        fst (projectsApi_assignVoices env pid m db) = Inr (''updated'', m)
        \<and> tbl_projects (snd (projectsApi_assignVoices env pid m db)) =
            map (\<lambda>r. if p_id r = pid
                      then r\<lparr>p_voice_mapping := Some m, p_updated_at := a_now env\<rparr> else r)
              (tbl_projects db)
        \<and> tbl_speakers (snd (projectsApi_assignVoices env pid m db)) =
            map (\<lambda>r. if s_project_id r = pid
                      then (case map_of m (s_speaker_label r) of
                              None \<Rightarrow> r
                            | Some v \<Rightarrow> r\<lparr>s_elevenlabs_voice_id := Some v\<rparr>)
                      else r)
              (tbl_speakers db)
        \<and> tbl_segments (snd (projectsApi_assignVoices env pid m db)) = tbl_segments db)"
proof -
  have all: "filter (\<lambda>e. a_speaker_ok env (fst e)) m = m"
    if "\<forall>l \<in> set (map fst m). a_speaker_ok env l"
    using that by (auto intro: filter_True)
  show ?thesis
    by (auto simp: projectsApi_assignVoices_def update_projects_def assign_speakers_speakers all
        voice_patch_def assign_speakers_projects assign_speakers_segments)
qed

text \<open>
  On the project with the speakers spk0 and spk1: a failed update of the project
  leaves the database as it was, and a run in which every request goes through gives
  both speakers their voice.
\<close>

theorem assignVoices_all_or_none_witness:
  "projectsApi_assignVoices project_request_fails ''p1'' both_voices two_speakers_db
     = (Inl PostgrestError, two_speakers_db)
   \<and> fst (projectsApi_assignVoices requests_ok ''p1'' both_voices two_speakers_db)
       = Inr (''updated'', both_voices)
   \<and> map p_voice_mapping
        (tbl_projects (snd (projectsApi_assignVoices requests_ok ''p1'' both_voices two_speakers_db)))
       = [Some both_voices]
   \<and> map s_elevenlabs_voice_id
        (tbl_speakers (snd (projectsApi_assignVoices requests_ok ''p1'' both_voices two_speakers_db)))
       = [Some ''v1'', Some ''v2'']"
proof -
  have f: "\<not> a_project_ok project_request_fails"
    by (simp add: project_request_fails_def)
  have h: "a_project_ok requests_ok \<and> (\<forall>l \<in> set (map fst both_voices). a_speaker_ok requests_ok l)
           \<and> distinct (map fst both_voices)"
    by (simp add: requests_ok_def both_voices_def)
  from f assignVoices_all_or_none [of project_request_fails "''p1''" both_voices two_speakers_db]
  have 1: "projectsApi_assignVoices project_request_fails ''p1'' both_voices two_speakers_db
     = (Inl PostgrestError, two_speakers_db)"
    by blast
  from h assignVoices_all_or_none [of requests_ok "''p1''" both_voices two_speakers_db]
  have 2: "fst (projectsApi_assignVoices requests_ok ''p1'' both_voices two_speakers_db)
       = Inr (''updated'', both_voices)"
    by blast
  have 3: "map p_voice_mapping
        (tbl_projects (snd (projectsApi_assignVoices requests_ok ''p1'' both_voices two_speakers_db)))
       = [Some both_voices]"
    by (simp add: projectsApi_assignVoices_def update_projects_def requests_ok_def example_rows
        assign_speakers_projects)
  have 4: "map s_elevenlabs_voice_id
        (tbl_speakers (snd (projectsApi_assignVoices requests_ok ''p1'' both_voices two_speakers_db)))
       = [Some ''v1'', Some ''v2'']"
    by (simp add: projectsApi_assignVoices_def update_projects_def update_speakers_voice_def
        requests_ok_def both_voices_def example_rows)
  from 1 2 3 4 show ?thesis by blast
qed

text \<open>
  C1 as stated fails: when the request for spk1 does not go through, the call still
  returns \<open>updated\<close>, and what it leaves behind has the mapping of the project written,
  the voice of spk0 written and the voice of spk1 not.
\<close>

theorem assignVoices_partial_counterexample:
  "fst (projectsApi_assignVoices second_speaker_fails ''p1'' both_voices two_speakers_db)
     = Inr (''updated'', both_voices)
   \<and> map p_voice_mapping
        (tbl_projects
           (snd (projectsApi_assignVoices second_speaker_fails ''p1'' both_voices two_speakers_db)))
       = [Some both_voices]
   \<and> map s_elevenlabs_voice_id
        (tbl_speakers
           (snd (projectsApi_assignVoices second_speaker_fails ''p1'' both_voices two_speakers_db)))
       = [Some ''v1'', None]"
  by (simp add: projectsApi_assignVoices_def update_projects_def update_speakers_voice_def
      second_speaker_fails_def both_voices_def example_rows)

lemma update_speakers_voice_unknown:
  "\<forall>r \<in> set (tbl_speakers db). \<not> (s_project_id r = pid \<and> s_speaker_label r = lbl) \<Longrightarrow>
   update_speakers_voice pid lbl v db = db"
proof -
  assume a: "\<forall>r \<in> set (tbl_speakers db). \<not> (s_project_id r = pid \<and> s_speaker_label r = lbl)"
  have "map (\<lambda>r. if s_project_id r = pid \<and> s_speaker_label r = lbl
                 then r\<lparr>s_elevenlabs_voice_id := Some v\<rparr> else r) (tbl_speakers db)
        = tbl_speakers db"
    using a by (intro map_idI) auto
  then show ?thesis by (simp add: update_speakers_voice_def)
qed

lemma update_speakers_voice_keeps_unknown:
  assumes "\<forall>r \<in> set (tbl_speakers db). \<not> (s_project_id r = pid \<and> s_speaker_label r = lbl)"
  shows "\<forall>r \<in> set (tbl_speakers (update_speakers_voice pid l v db)).
      \<not> (s_project_id r = pid \<and> s_speaker_label r = lbl)"
proof
  fix r
  assume "r \<in> set (tbl_speakers (update_speakers_voice pid l v db))"
  then obtain r0 where r0: "r0 \<in> set (tbl_speakers db)"
    and r: "r = (if s_project_id r0 = pid \<and> s_speaker_label r0 = l
                then r0\<lparr>s_elevenlabs_voice_id := Some v\<rparr> else r0)"
    by (auto simp: update_speakers_voice_def)
  have "s_project_id r = s_project_id r0" "s_speaker_label r = s_speaker_label r0"
    using r by simp_all
  then show "\<not> (s_project_id r = pid \<and> s_speaker_label r = lbl)"
    using assms r0 by simp
qed

lemma assign_speakers_unknown:
  "\<forall>r \<in> set (tbl_speakers db). \<not> (s_project_id r = pid \<and> s_speaker_label r = lbl) \<Longrightarrow>
   assign_speakers ok pid m db = assign_speakers ok pid (filter (\<lambda>e. fst e \<noteq> lbl) m) db"
proof (induction m arbitrary: db)
  case Nil
  show ?case by simp
next
  case (Cons e m)
  obtain l v where e: "e = (l, v)" by (cases e)
  let ?db' = "if ok l then update_speakers_voice pid l v db else db"
  have keep: "\<forall>r \<in> set (tbl_speakers ?db'). \<not> (s_project_id r = pid \<and> s_speaker_label r = lbl)"
    using Cons.prems update_speakers_voice_keeps_unknown [OF Cons.prems, of l v] by simp
  have step: "assign_speakers ok pid (e # m) db = assign_speakers ok pid m ?db'"
    by (simp only: e assign_speakers.simps)
  have ih: "assign_speakers ok pid m ?db' =
            assign_speakers ok pid (filter (\<lambda>e. fst e \<noteq> lbl) m) ?db'"
    by (rule Cons.IH [OF keep])
  show ?case
  proof (cases "l = lbl")
    case True
    have "?db' = db"
      using True update_speakers_voice_unknown [OF Cons.prems, of v] by simp
    moreover have "filter (\<lambda>e. fst e \<noteq> lbl) (e # m) = filter (\<lambda>e. fst e \<noteq> lbl) m"
      using True e by simp
    ultimately show ?thesis using step ih by simp
  next
    case False
    have "filter (\<lambda>e. fst e \<noteq> lbl) (e # m) = (l, v) # filter (\<lambda>e. fst e \<noteq> lbl) m"
      using False e by simp
    then have "assign_speakers ok pid (filter (\<lambda>e. fst e \<noteq> lbl) (e # m)) db =
               assign_speakers ok pid (filter (\<lambda>e. fst e \<noteq> lbl) m) ?db'"
      by (simp only: assign_speakers.simps)
    then show ?thesis using step ih by simp
  qed
qed

lemma assign_speakers_cong:
  "tbl_speakers d1 = tbl_speakers d2 \<Longrightarrow>
   tbl_speakers (assign_speakers f pid xs d1) = tbl_speakers (assign_speakers f pid xs d2)"
proof (induction xs arbitrary: d1 d2)
  case Nil
  then show ?case by simp
next
  case (Cons e xs)
  obtain l v where e: "e = (l, v)" by (cases e)
  have "tbl_speakers (if f l then update_speakers_voice pid l v d1 else d1) =
        tbl_speakers (if f l then update_speakers_voice pid l v d2 else d2)"
    using Cons.prems by (simp add: update_speakers_voice_def)
  from Cons.IH [OF this] show ?case
    by (simp only: e assign_speakers.simps)
qed

text \<open>
  C4, as amended. \<open>assignVoices\<close> does not check the keys of the mapping. With a key
  \<open>lbl\<close> that is the label of no speaker of the project, and the update of the project
  going through, the call returns \<open>updated\<close>, the project gets the whole mapping (the
  unknown key with it), and the speakers end as they would had the entry of that key not
  been there.
\<close>

theorem assignVoices_unknown_label:
  "a_project_ok env \<and> lbl \<in> set (map fst m)
     \<and> (\<forall>r \<in> set (tbl_speakers db). \<not> (s_project_id r = pid \<and> s_speaker_label r = lbl)) \<longrightarrow>
   fst (projectsApi_assignVoices env pid m db) = Inr (''updated'', m)
   \<and> tbl_projects (snd (projectsApi_assignVoices env pid m db)) =
       map (\<lambda>r. if p_id r = pid
                 then r\<lparr>p_voice_mapping := Some m, p_updated_at := a_now env\<rparr> else r)
         (tbl_projects db)
   \<and> tbl_speakers (snd (projectsApi_assignVoices env pid m db)) =
       tbl_speakers
         (assign_speakers (a_speaker_ok env) pid (filter (\<lambda>e. fst e \<noteq> lbl) m) db)"
proof (intro impI, elim conjE)
  assume ok: "a_project_ok env"
    and unknown: "\<forall>r \<in> set (tbl_speakers db). \<not> (s_project_id r = pid \<and> s_speaker_label r = lbl)"
  define db1 where "db1 = update_projects (\<lambda>r. r\<lparr>p_voice_mapping := Some m\<rparr>) pid (a_now env) db"
  have s1: "tbl_speakers db1 = tbl_speakers db"
    by (simp add: db1_def update_projects_def)
  have p1: "tbl_projects db1 =
       map (\<lambda>r. if p_id r = pid
                 then r\<lparr>p_voice_mapping := Some m, p_updated_at := a_now env\<rparr> else r)
         (tbl_projects db)"
    by (simp add: db1_def update_projects_def)
  have unknown1: "\<forall>r \<in> set (tbl_speakers db1). \<not> (s_project_id r = pid \<and> s_speaker_label r = lbl)"
    using unknown by (simp only: s1)
  have res: "projectsApi_assignVoices env pid m db =
          (Inr (''updated'', m), assign_speakers (a_speaker_ok env) pid m db1)"
    using ok by (simp add: projectsApi_assignVoices_def db1_def)
  have "tbl_speakers (assign_speakers (a_speaker_ok env) pid m db1) =
        tbl_speakers (assign_speakers (a_speaker_ok env) pid (filter (\<lambda>e. fst e \<noteq> lbl) m) db1)"
    by (rule arg_cong [where f = tbl_speakers, OF assign_speakers_unknown [OF unknown1]])
  also have "\<dots> =
        tbl_speakers (assign_speakers (a_speaker_ok env) pid (filter (\<lambda>e. fst e \<noteq> lbl) m) db)"
    by (rule assign_speakers_cong [OF s1])
  finally show "fst (projectsApi_assignVoices env pid m db) = Inr (''updated'', m)
   \<and> tbl_projects (snd (projectsApi_assignVoices env pid m db)) =
       map (\<lambda>r. if p_id r = pid
                 then r\<lparr>p_voice_mapping := Some m, p_updated_at := a_now env\<rparr> else r)
         (tbl_projects db)
   \<and> tbl_speakers (snd (projectsApi_assignVoices env pid m db)) =
       tbl_speakers
         (assign_speakers (a_speaker_ok env) pid (filter (\<lambda>e. fst e \<noteq> lbl) m) db)"
    by (simp add: res p1 assign_speakers_projects)
qed

text \<open>
  With the mapping spk0, spk9 on the project with the speakers spk0 and spk1: the call
  returns \<open>updated\<close>, the project has both keys, spk0 has its voice.
\<close>

theorem assignVoices_unknown_label_witness:
  "fst (projectsApi_assignVoices requests_ok ''p1'' unknown_voice two_speakers_db)
     = Inr (''updated'', unknown_voice)
   \<and> map p_voice_mapping
        (tbl_projects (snd (projectsApi_assignVoices requests_ok ''p1'' unknown_voice two_speakers_db)))
       = [Some unknown_voice]
   \<and> map s_elevenlabs_voice_id
        (tbl_speakers (snd (projectsApi_assignVoices requests_ok ''p1'' unknown_voice two_speakers_db)))
       = [Some ''v1'', None]"
proof -
  have h: "a_project_ok requests_ok \<and> ''spk9'' \<in> set (map fst unknown_voice)
     \<and> (\<forall>r \<in> set (tbl_speakers two_speakers_db).
           \<not> (s_project_id r = ''p1'' \<and> s_speaker_label r = ''spk9''))"
    by (simp add: requests_ok_def unknown_voice_def example_rows)
  from h assignVoices_unknown_label [of requests_ok "''spk9''" unknown_voice two_speakers_db "''p1''"]
  have 1: "fst (projectsApi_assignVoices requests_ok ''p1'' unknown_voice two_speakers_db)
     = Inr (''updated'', unknown_voice)"
    by blast
  have 2: "map p_voice_mapping
        (tbl_projects (snd (projectsApi_assignVoices requests_ok ''p1'' unknown_voice two_speakers_db)))
       = [Some unknown_voice]"
    by (simp add: projectsApi_assignVoices_def update_projects_def requests_ok_def example_rows
        assign_speakers_projects)
  have 3: "map s_elevenlabs_voice_id
        (tbl_speakers (snd (projectsApi_assignVoices requests_ok ''p1'' unknown_voice two_speakers_db)))
       = [Some ''v1'', None]"
    by (simp add: projectsApi_assignVoices_def update_projects_def update_speakers_voice_def
        requests_ok_def unknown_voice_def example_rows)
  from 1 2 3 show ?thesis by blast
qed

text \<open>
  C4 as stated fails: spk9 is the label of no speaker, and \<open>assignVoices\<close> with the
  mapping of spk9 alone returns \<open>updated\<close> and has written that mapping to the project,
  whose mapping was null before.
\<close>

theorem assignVoices_unknown_label_counterexample:
  "''spk9'' \<notin> set (map s_speaker_label (tbl_speakers two_speakers_db))
   \<and> fst (projectsApi_assignVoices requests_ok ''p1'' [(''spk9'', ''v2'')] two_speakers_db)
       = Inr (''updated'', [(''spk9'', ''v2'')])
   \<and> map p_voice_mapping
        (tbl_projects
           (snd (projectsApi_assignVoices requests_ok ''p1'' [(''spk9'', ''v2'')] two_speakers_db)))
       = [Some [(''spk9'', ''v2'')]]
   \<and> map p_voice_mapping (tbl_projects two_speakers_db) = [None]"
  by (simp add: projectsApi_assignVoices_def update_projects_def update_speakers_voice_def
      requests_ok_def example_rows)

subsection \<open>Creating a project\<close>

lemmas create_examples = empty_db_def demo_data_def create_ok_def

lemmas create_failures = upload_fails_def update_fails_def upload_and_cleanup_fail_def

lemma not_in_map:
  "f a \<notin> set (map f xs) \<Longrightarrow> x \<in> set xs \<Longrightarrow> f x \<noteq> f a"
  by (metis imageI set_map)

lemma filter_fresh: "f a \<notin> set (map f xs) \<Longrightarrow> filter (\<lambda>r. f r \<noteq> f a) xs = xs"
  by (rule filter_True) (metis imageI set_map)

lemma filter_map_fresh:
  "f a \<notin> set (map f xs) \<Longrightarrow>
   filter (\<lambda>r. f r = f a) (map (\<lambda>r. if f r = f a then g r else r) xs) = []"
  by (induction xs) auto

lemma delete_projects_after_insert:
  assumes "p_id row \<notin> set (map p_id (tbl_projects db))"
  shows "tbl_projects (delete_projects (p_id row) (db\<lparr>tbl_projects := tbl_projects db @ [row]\<rparr>))
           = tbl_projects db"
proof -
  have "filter (\<lambda>r. p_id r \<noteq> p_id row) (tbl_projects db) = tbl_projects db"
    using assms by (rule filter_fresh)
  then show ?thesis
    by (simp add: delete_projects_def Let_def)
qed

lemma insert_project_Inr:
  assumes "insert_project env data db = (Inr proj, db1)"
  shows "proj = inserted_row env data"
    and "db1 = db\<lparr>tbl_projects := tbl_projects db @ [inserted_row env data]\<rparr>"
    and "e_new_id env \<notin> set (map p_id (tbl_projects db))"
    and "p_id proj = e_new_id env"
  using assms by (auto simp: insert_project_def inserted_row_def split: if_splits)

lemma updated_single:
  assumes "p_id row \<notin> set (map p_id (tbl_projects db))"
    and that: "p_id (patch row) = p_id row"
  shows "filter (\<lambda>r. p_id r = p_id row)
           (tbl_projects (update_projects patch (p_id row) now
              (db\<lparr>tbl_projects := tbl_projects db @ [row]\<rparr>)))
         = [(patch row)\<lparr>p_updated_at := now\<rparr>]"
proof -
  have "filter (\<lambda>r. p_id r = p_id row)
          (map (\<lambda>r. if p_id r = p_id row then (patch r)\<lparr>p_updated_at := now\<rparr> else r) (tbl_projects db)) = []"
    using assms(1) by (rule filter_map_fresh)
  then show ?thesis using that
    by (simp add: update_projects_def)
qed

lemma create_success:
  assumes ins: "insert_project env data db = (Inr proj, db1)"
    and up: "e_uploadVideo env (d_video data) (p_id proj) = Inr url"
    and ok: "e_update_ok env"
  shows "projectsApi_create env data db =
           (Inr (proj\<lparr>p_original_video_url := Some url, p_status := Pending,
                      p_updated_at := e_now_update env\<rparr>),
            update_projects (\<lambda>r. r\<lparr>p_original_video_url := Some url, p_status := Pending\<rparr>)
              (p_id proj) (e_now_update env) db1)"
    and "proj\<lparr>p_original_video_url := Some url, p_status := Pending,
              p_updated_at := e_now_update env\<rparr>
         \<in> set (tbl_projects
                  (update_projects (\<lambda>r. r\<lparr>p_original_video_url := Some url, p_status := Pending\<rparr>)
                     (p_id proj) (e_now_update env) db1))"
proof -
  note i = insert_project_Inr [OF ins]
  have fresh: "p_id proj \<notin> set (map p_id (tbl_projects db))"
    using i(3,4) by simp
  have db1: "db1 = db\<lparr>tbl_projects := tbl_projects db @ [proj]\<rparr>"
    using i(1,2) by simp
  let ?patch = "\<lambda>r. r\<lparr>p_original_video_url := Some url, p_status := Pending\<rparr>"
  let ?db2 = "update_projects ?patch (p_id proj) (e_now_update env) db1"
  have one: "filter (\<lambda>r. p_id r = p_id proj) (tbl_projects ?db2)
             = [(?patch proj)\<lparr>p_updated_at := e_now_update env\<rparr>]"
    unfolding db1 by (rule updated_single [OF fresh]) simp
  show "projectsApi_create env data db =
          (Inr (proj\<lparr>p_original_video_url := Some url, p_status := Pending,
                      p_updated_at := e_now_update env\<rparr>), ?db2)"
    using up ok ins one by (simp add: projectsApi_create_def)
  show "proj\<lparr>p_original_video_url := Some url, p_status := Pending,
              p_updated_at := e_now_update env\<rparr> \<in> set (tbl_projects ?db2)"
    by (simp add: update_projects_def db1)
qed

text \<open>
  C9, as amended. Once the project row is inserted: when \<open>uploadVideo\<close> throws, or
  the update that follows fails, \<open>create\<close> asks for the deletion of the row it inserted
  and throws the error again; when that deletion goes through, the projects table is what
  it was before the call, with no row of the new id. When upload and update go through,
  \<open>create\<close> returns the row with \<open>original_video_url\<close> set and the status pending, and the
  row is in the table.
\<close>

theorem create_failure_cleanup:
  "insert_project env data db = (Inr proj, db1) \<longrightarrow>
     (\<forall>err. e_uploadVideo env (d_video data) (p_id proj) = Inl err \<longrightarrow>
        projectsApi_create env data db = (Inl err, cleanup env (p_id proj) db1))
   \<and> (\<forall>url. e_uploadVideo env (d_video data) (p_id proj) = Inr url \<and> \<not> e_update_ok env \<longrightarrow>
        projectsApi_create env data db = (Inl PostgrestError, cleanup env (p_id proj) db1))
   \<and> (e_cleanup_ok env \<longrightarrow>
        tbl_projects (cleanup env (p_id proj) db1) = tbl_projects db
        \<and> p_id proj \<notin> set (map p_id (tbl_projects (cleanup env (p_id proj) db1))))
   \<and> (\<forall>url. e_uploadVideo env (d_video data) (p_id proj) = Inr url \<and> e_update_ok env \<longrightarrow>
        (\<exists>db2.
           projectsApi_create env data db =
             (Inr (proj\<lparr>p_original_video_url := Some url, p_status := Pending,
                        p_updated_at := e_now_update env\<rparr>), db2)
           \<and> proj\<lparr>p_original_video_url := Some url, p_status := Pending,
                    p_updated_at := e_now_update env\<rparr> \<in> set (tbl_projects db2)))"
proof
  assume ins: "insert_project env data db = (Inr proj, db1)"
  note i = insert_project_Inr [OF ins]
  have fresh: "p_id proj \<notin> set (map p_id (tbl_projects db))"
    using i(3,4) by simp
  have db1: "db1 = db\<lparr>tbl_projects := tbl_projects db @ [proj]\<rparr>"
    using i(1,2) by simp
  have a: "projectsApi_create env data db = (Inl err, cleanup env (p_id proj) db1)"
    if "e_uploadVideo env (d_video data) (p_id proj) = Inl err" for err
    using that ins by (simp add: projectsApi_create_def)
  have b: "projectsApi_create env data db = (Inl PostgrestError, cleanup env (p_id proj) db1)"
    if "e_uploadVideo env (d_video data) (p_id proj) = Inr url" "\<not> e_update_ok env" for url
    using that ins by (simp add: projectsApi_create_def)
  have c1: "tbl_projects (cleanup env (p_id proj) db1) = tbl_projects db" if "e_cleanup_ok env"
    using that delete_projects_after_insert [OF fresh] by (simp add: cleanup_def db1)
  have c2: "p_id proj \<notin> set (map p_id (tbl_projects (cleanup env (p_id proj) db1)))"
    if "e_cleanup_ok env"
    using c1 [OF that] fresh by simp
  have d: "\<exists>db2.
           projectsApi_create env data db =
             (Inr (proj\<lparr>p_original_video_url := Some url, p_status := Pending,
                        p_updated_at := e_now_update env\<rparr>), db2)
           \<and> proj\<lparr>p_original_video_url := Some url, p_status := Pending,
                    p_updated_at := e_now_update env\<rparr> \<in> set (tbl_projects db2)"
    if up: "e_uploadVideo env (d_video data) (p_id proj) = Inr url" and ok: "e_update_ok env" for url
    using create_success [OF ins up ok] by blast
  show "(\<forall>err. e_uploadVideo env (d_video data) (p_id proj) = Inl err \<longrightarrow>
        projectsApi_create env data db = (Inl err, cleanup env (p_id proj) db1))
   \<and> (\<forall>url. e_uploadVideo env (d_video data) (p_id proj) = Inr url \<and> \<not> e_update_ok env \<longrightarrow>
        projectsApi_create env data db = (Inl PostgrestError, cleanup env (p_id proj) db1))
   \<and> (e_cleanup_ok env \<longrightarrow>
        tbl_projects (cleanup env (p_id proj) db1) = tbl_projects db
        \<and> p_id proj \<notin> set (map p_id (tbl_projects (cleanup env (p_id proj) db1))))
   \<and> (\<forall>url. e_uploadVideo env (d_video data) (p_id proj) = Inr url \<and> e_update_ok env \<longrightarrow>
        (\<exists>db2.
           projectsApi_create env data db =
             (Inr (proj\<lparr>p_original_video_url := Some url, p_status := Pending,
                        p_updated_at := e_now_update env\<rparr>), db2)
           \<and> proj\<lparr>p_original_video_url := Some url, p_status := Pending,
                    p_updated_at := e_now_update env\<rparr> \<in> set (tbl_projects db2)))"
    using a b c1 c2 d by blast
qed

text \<open>
  On an empty database, the cleanup going through: a failed upload and a failed update
  each give their error and the empty database back; a run in which every request goes
  through returns the row with the URL and pending.
\<close>

theorem create_failure_cleanup_witness:
  "projectsApi_create upload_fails demo_data empty_db = (Inl StorageError, empty_db)
   \<and> projectsApi_create update_fails demo_data empty_db = (Inl PostgrestError, empty_db)
   \<and> fst (projectsApi_create create_ok demo_data empty_db) =
       Inr ((inserted_row create_ok demo_data)
              \<lparr>p_original_video_url := Some ''videos/p1/clip.mp4'', p_status := Pending,
               p_updated_at := 2\<rparr>)"
proof -
  have run: "insert_project env demo_data empty_db
               = (Inr (inserted_row env demo_data),
                  empty_db\<lparr>tbl_projects := [inserted_row env demo_data]\<rparr>)"
    if "e_insert_ok env" for env
    using that by (simp add: insert_project_def empty_db_def)
  have restored: "cleanup env (p_id (inserted_row env demo_data))
                (empty_db\<lparr>tbl_projects := [inserted_row env demo_data]\<rparr>) = empty_db"
    if "e_cleanup_ok env" for env
    using that by (simp add: cleanup_def delete_projects_def empty_db_def)
  have u1: "e_insert_ok upload_fails" "e_cleanup_ok upload_fails"
    "e_uploadVideo upload_fails (d_video demo_data) (p_id (inserted_row upload_fails demo_data))
       = Inl StorageError"
    by (simp_all add: create_examples create_failures)
  from create_failure_cleanup
    [of upload_fails demo_data empty_db "inserted_row upload_fails demo_data"
      "empty_db\<lparr>tbl_projects := [inserted_row upload_fails demo_data]\<rparr>"]
    run [OF u1(1)] u1(3)
  have "projectsApi_create upload_fails demo_data empty_db
          = (Inl StorageError,
             cleanup upload_fails (p_id (inserted_row upload_fails demo_data))
               (empty_db\<lparr>tbl_projects := [inserted_row upload_fails demo_data]\<rparr>))"
    by blast
  then have 1: "projectsApi_create upload_fails demo_data empty_db = (Inl StorageError, empty_db)"
    by (simp only: restored [OF u1(2)])
  have u2: "e_insert_ok update_fails" "e_cleanup_ok update_fails"
    "e_uploadVideo update_fails (d_video demo_data) (p_id (inserted_row update_fails demo_data))
       = Inr ''videos/p1/clip.mp4'' \<and> \<not> e_update_ok update_fails"
    by (simp_all add: create_examples create_failures inserted_row_def)
  from create_failure_cleanup
    [of update_fails demo_data empty_db "inserted_row update_fails demo_data"
      "empty_db\<lparr>tbl_projects := [inserted_row update_fails demo_data]\<rparr>"]
    run [OF u2(1)] u2(3)
  have "projectsApi_create update_fails demo_data empty_db
          = (Inl PostgrestError,
             cleanup update_fails (p_id (inserted_row update_fails demo_data))
               (empty_db\<lparr>tbl_projects := [inserted_row update_fails demo_data]\<rparr>))"
    by blast
  then have 2: "projectsApi_create update_fails demo_data empty_db = (Inl PostgrestError, empty_db)"
    by (simp only: restored [OF u2(2)])
  have u3: "e_insert_ok create_ok"
    "e_uploadVideo create_ok (d_video demo_data) (p_id (inserted_row create_ok demo_data))
       = Inr ''videos/p1/clip.mp4'' \<and> e_update_ok create_ok"
    by (simp_all add: create_examples inserted_row_def)
  from create_failure_cleanup
    [of create_ok demo_data empty_db "inserted_row create_ok demo_data"
      "empty_db\<lparr>tbl_projects := [inserted_row create_ok demo_data]\<rparr>"]
    run [OF u3(1)] u3(2)
  obtain db2 where "projectsApi_create create_ok demo_data empty_db =
       (Inr ((inserted_row create_ok demo_data)
              \<lparr>p_original_video_url := Some ''videos/p1/clip.mp4'', p_status := Pending,
               p_updated_at := e_now_update create_ok\<rparr>), db2)"
    by blast
  then have 3: "fst (projectsApi_create create_ok demo_data empty_db) =
       Inr ((inserted_row create_ok demo_data)
              \<lparr>p_original_video_url := Some ''videos/p1/clip.mp4'', p_status := Pending,
               p_updated_at := 2\<rparr>)"
    by (simp add: create_ok_def)
  from 1 2 3 show ?thesis by blast
qed

text \<open>
  C9 as stated fails: when the upload fails and the deletion that follows does not go
  through either, \<open>create\<close> throws the storage error and the inserted row stays in the
  table, in the status uploading.
\<close>

theorem create_row_left_behind_counterexample:
  "fst (projectsApi_create upload_and_cleanup_fail demo_data empty_db) = Inl StorageError
   \<and> map p_id (tbl_projects (snd (projectsApi_create upload_and_cleanup_fail demo_data empty_db)))
       = [''p1'']
   \<and> map p_status (tbl_projects (snd (projectsApi_create upload_and_cleanup_fail demo_data empty_db)))
       = [Uploading]"
  by (simp add: projectsApi_create_def insert_project_def inserted_row_def cleanup_def
      create_examples create_failures)

subsection \<open>Status changes\<close>

lemma statusOrder_index:
  "indexOf statusOrder Pending = 0" "indexOf statusOrder Uploading = 1"
  "indexOf statusOrder Diarizing = 2" "indexOf statusOrder Transcribing = 3"
  "indexOf statusOrder Translating = 4" "indexOf statusOrder Voice_mapping = 5"
  "indexOf statusOrder Dubbing = 6" "indexOf statusOrder Mixing = 7"
  "indexOf statusOrder Rendering = 8" "indexOf statusOrder Completed = 9"
  "indexOf statusOrder Failed = - 1"
  by (simp_all add: statusOrder_def)

lemma immediate_successor_steps:
  "immediate_successor S X = ((S, X) \<in> set forward_steps)"
  by (cases S; cases X; simp add: immediate_successor_def statusOrder_index forward_steps_def)

lemma update_projects_status:
  assumes "r \<in> set (tbl_projects (update_projects (\<lambda>r. r\<lparr>p_status := X\<rparr>) pid now db))"
    and "p_id r = pid"
  shows "p_status r = X"
proof -
  from assms(1)
  have "r \<in> (\<lambda>r0. if p_id r0 = pid then r0\<lparr>p_status := X, p_updated_at := now\<rparr> else r0)
               ` set (tbl_projects db)"
    by (simp add: update_projects_def)
  then obtain r0 where
    r: "r = (if p_id r0 = pid then r0\<lparr>p_status := X, p_updated_at := now\<rparr> else r0)"
    by blast
  with assms(2) show "p_status r = X" by (cases "p_id r0 = pid") simp_all
qed

lemma update_projects_ids:
  "map p_id (tbl_projects (update_projects (\<lambda>r. r\<lparr>p_status := X\<rparr>) pid now db))
     = map p_id (tbl_projects db)"
  by (simp add: update_projects_def comp_def if_distrib cong: if_cong)

text \<open>
  C2, as amended. The forward order is the one of \<open>statusOrder\<close>: \<open>X\<close> is the immediate
  successor of \<open>S\<close> exactly for the nine steps from pending to uploading up to
  rendering to completed, and failed stands outside the order (index \<open>-1\<close>). The code
  has no check of a transition: the update of the status of a project to any \<open>X\<close>
  keeps every row and leaves the rows of that id with the status \<open>X\<close>, whatever status
  they had. \<open>projectsApi.create\<close> itself, when its requests go through, inserts the
  project as uploading and returns it as pending, which is not the immediate successor
  of uploading.
\<close>

theorem status_writes_unguarded:
  "immediate_successor S X = ((S, X) \<in> set forward_steps)
   \<and> indexOf statusOrder Failed = - 1
   \<and> map p_id (tbl_projects (update_projects (\<lambda>r. r\<lparr>p_status := X\<rparr>) pid now db))
       = map p_id (tbl_projects db)
   \<and> (\<forall>r \<in> set (tbl_projects (update_projects (\<lambda>r. r\<lparr>p_status := X\<rparr>) pid now db)).
         p_id r = pid \<longrightarrow> p_status r = X)
   \<and> (e_insert_ok env \<and> e_new_id env \<notin> set (map p_id (tbl_projects db))
        \<and> e_uploadVideo env (d_video data) (e_new_id env) = Inr url \<and> e_update_ok env \<longrightarrow>
        fst (insert_project env data db) = Inr (inserted_row env data)
        \<and> p_status (inserted_row env data) = Uploading
        \<and> fst (projectsApi_create env data db) =
            Inr ((inserted_row env data)
                   \<lparr>p_original_video_url := Some url, p_status := Pending,
                    p_updated_at := e_now_update env\<rparr>)
        \<and> \<not> immediate_successor Uploading Pending)"
proof -
  have a: "indexOf statusOrder Failed = - 1"
    by (rule statusOrder_index)
  have b: "\<not> immediate_successor Uploading Pending"
    by (simp add: immediate_successor_def statusOrder_index)
  have c: "fst (insert_project env data db) = Inr (inserted_row env data)
        \<and> p_status (inserted_row env data) = Uploading
        \<and> fst (projectsApi_create env data db) =
            Inr ((inserted_row env data)
                   \<lparr>p_original_video_url := Some url, p_status := Pending,
                    p_updated_at := e_now_update env\<rparr>)"
    if h: "e_insert_ok env" "e_new_id env \<notin> set (map p_id (tbl_projects db))"
      "e_uploadVideo env (d_video data) (e_new_id env) = Inr url" "e_update_ok env"
  proof -
    have ins: "insert_project env data db =
                 (Inr (inserted_row env data),
                  db\<lparr>tbl_projects := tbl_projects db @ [inserted_row env data]\<rparr>)"
      using h(1,2) by (simp add: insert_project_def)
    have up: "e_uploadVideo env (d_video data) (p_id (inserted_row env data)) = Inr url"
      using h(3) by (simp add: inserted_row_def)
    show ?thesis
      using ins create_success(1) [OF ins up h(4)] by (simp add: inserted_row_def)
  qed
  show ?thesis
    using a b c immediate_successor_steps update_projects_status update_projects_ids
    by blast
qed

text \<open>
  dubbing is the immediate successor of voice_mapping and not the other way round; the
  update to pending of the project in voice_mapping leaves it pending; \<open>create\<close> of a
  second project returns it as pending.
\<close>

theorem status_writes_unguarded_witness:
  "immediate_successor Voice_mapping Dubbing
   \<and> \<not> immediate_successor Dubbing Voice_mapping
   \<and> p_status
        (hd (tbl_projects (update_projects (\<lambda>r. r\<lparr>p_status := Pending\<rparr>) ''p1'' 3 two_speakers_db)))
       = Pending
   \<and> fst (projectsApi_create create_second demo_data two_speakers_db) =
       Inr ((inserted_row create_second demo_data)
              \<lparr>p_original_video_url := Some ''videos/p2/clip.mp4'', p_status := Pending,
               p_updated_at := 2\<rparr>)"
proof -
  have h: "e_insert_ok create_second
        \<and> e_new_id create_second \<notin> set (map p_id (tbl_projects two_speakers_db))
        \<and> e_uploadVideo create_second (d_video demo_data) (e_new_id create_second)
            = Inr ''videos/p2/clip.mp4''
        \<and> e_update_ok create_second"
    by (simp add: create_examples create_second_def example_rows)
  note t = status_writes_unguarded [where pid = "''p1''" and now = 3 and db = two_speakers_db
      and env = create_second and data = demo_data and url = "''videos/p2/clip.mp4''"]
  from t [of Voice_mapping Dubbing] have 1: "immediate_successor Voice_mapping Dubbing"
    by (simp add: forward_steps_def)
  from t [of Dubbing Voice_mapping] have 2: "\<not> immediate_successor Dubbing Voice_mapping"
    by (simp add: forward_steps_def)
  let ?db = "update_projects (\<lambda>r. r\<lparr>p_status := Pending\<rparr>) ''p1'' 3 two_speakers_db"
  have m: "hd (tbl_projects ?db) \<in> set (tbl_projects ?db)" and i: "p_id (hd (tbl_projects ?db)) = ''p1''"
    by (simp_all add: update_projects_def example_rows)
  from t [of Pending Pending] m i have 3: "p_status (hd (tbl_projects ?db)) = Pending"
    by blast
  from h t [of Pending Pending]
  have "fst (projectsApi_create create_second demo_data two_speakers_db) =
            Inr ((inserted_row create_second demo_data)
                   \<lparr>p_original_video_url := Some ''videos/p2/clip.mp4'', p_status := Pending,
                    p_updated_at := e_now_update create_second\<rparr>)"
    by blast
  then have 4: "fst (projectsApi_create create_second demo_data two_speakers_db) =
       Inr ((inserted_row create_second demo_data)
              \<lparr>p_original_video_url := Some ''videos/p2/clip.mp4'', p_status := Pending,
               p_updated_at := 2\<rparr>)"
    by (simp add: create_second_def create_ok_def)
  from 1 2 3 4 show ?thesis by blast
qed

text \<open>
  C2 as stated fails: uploading is not terminal, pending is neither its immediate
  successor nor failed, and \<open>create\<close>, with every request going through, inserts the
  project as uploading and then moves it to pending: it returns the project as pending
  and leaves it so in the table.
\<close>

theorem backward_transition_counterexample:
  "\<not> terminal Uploading \<and> \<not> immediate_successor Uploading Pending \<and> Pending \<noteq> Failed
   \<and> map p_status (tbl_projects (snd (insert_project create_ok demo_data empty_db))) = [Uploading]
   \<and> fst (projectsApi_create create_ok demo_data empty_db) =
       Inr ((inserted_row create_ok demo_data)
              \<lparr>p_original_video_url := Some ''videos/p1/clip.mp4'', p_status := Pending,
               p_updated_at := 2\<rparr>)
   \<and> map p_status (tbl_projects (snd (projectsApi_create create_ok demo_data empty_db))) = [Pending]"
  by (simp add: immediate_successor_def statusOrder_index projectsApi_create_def insert_project_def
      inserted_row_def update_projects_def create_examples example_rows)

subsection \<open>Deleting\<close>








subsection \<open>Starting the processing\<close>





















text \<open>
  What the reads of \<open>speaker.label\<close> and \<open>speaker.voice_id\<close> on the rows of
  \<open>projectsApi.get\<close> come to: a fetch leaves the mapping of the page empty, whatever
  voices the rows have, and every choice of a voice writes the one key "undefined".
\<close>

lemma fetched_mapping_empty: "fetched_mapping spks = []"
proof -
  have "fold (\<lambda>speaker mapping. mapping) spks acc = acc"
    for acc :: "(string \<times> string) list"
    by (induction spks) simp_all
  then show ?thesis by (simp add: fetched_mapping_def voice_id_def)
qed

lemma undefined_key_step:
  assumes "set (map fst (voiceMapping st)) \<subseteq> {''undefined''}"
  shows "set (map fst (voiceMapping (page_step pid ev st))) \<subseteq> {''undefined''}"
proof (cases ev)
  case (Fetched got)
  then show ?thesis
    using assms by (cases got) (simp_all add: fetchProject_def fetched_mapping_empty)
next
  case (Voice_chosen i v)
  have "set (map fst (AList.update ''undefined'' v (voiceMapping st))) \<subseteq> {''undefined''}"
    using assms AList.dom_update [of "''undefined''" v "voiceMapping st"] by auto
  then show ?thesis
    using Voice_chosen assms
    by (cases "project st") (simp_all add: handleVoiceSelect_def label_def)
next
  case (Analyze_clicked response refetch)
  then show ?thesis
    using assms
    by (cases "projectsApi_analyze response"; cases refetch)
      (simp_all add: handleAnalyze_def fetchProject_def fetched_mapping_empty)
next
  case (Process_clicked env db)
  obtain res db' where r:
    "projectsApi_startProcessing (h_assign env) (h_response env) pid (voiceMapping st) db = (res, db')"
    by (cases "projectsApi_startProcessing (h_assign env) (h_response env) pid (voiceMapping st) db")
  show ?thesis
    using Process_clicked assms r
    by (cases res; cases "h_refetch env")
      (simp_all add: handleProcess_def fetchProject_def fetched_mapping_empty)
qed

lemma undefined_key_run:
  "set (map fst (voiceMapping st)) \<subseteq> {''undefined''} \<Longrightarrow>
   set (map fst (voiceMapping (page_run pid evs st))) \<subseteq> {''undefined''}"
proof (induction evs arbitrary: st)
  case Nil
  then show ?case by simp
next
  case (Cons ev evs)
  from Cons.IH [OF undefined_key_step [OF Cons.prems, of pid ev]] show ?case
    by (simp only: page_run.simps)
qed

lemma page_keys_undefined:
  "set (map fst (voiceMapping (page_run pid evs initial_page))) \<subseteq> {''undefined''}"
  by (rule undefined_key_run) (simp add: initial_page_def)

subsection \<open>The statistics of the speakers\<close>

lemma length_filter_sum:
  "int (length (filter P xs)) = sum_list (map (\<lambda>x. if P x then 1 else 0) xs)"
  by (induction xs) simp_all

lemma statistics_ok_credit:
  "statistics_ok db r =
     (s_total_duration_ms r = sum_list (map (credit duration (s_id r)) (tbl_segments db))
      \<and> s_segment_count r = sum_list (map (credit (\<lambda>g. 1) (s_id r)) (tbl_segments db)))"
  by (simp add: statistics_ok_def referencing_def credit_def sum_list_map_filter' length_filter_sum
      cong: map_cong)

lemma find_key_None:
  "i \<notin> set (map k xs) \<Longrightarrow> map (\<lambda>y. if k y = i then u y else y) xs = xs"
  by (induction xs) auto

lemma sum_list_update_one:
  fixes w :: "'a \<Rightarrow> int"
  assumes "distinct (map k xs)" "find (\<lambda>y. k y = i) xs = Some x"
  shows "sum_list (map w (map (\<lambda>y. if k y = i then u y else y) xs))
           = sum_list (map w xs) - w x + w (u x)"
  using assms
proof (induction xs)
  case Nil
  then show ?case by simp
next
  case (Cons y ys)
  show ?case
  proof (cases "k y = i")
    case True
    then have x: "x = y" using Cons.prems(2) by simp
    have "i \<notin> set (map k ys)" using Cons.prems(1) True by auto
    then have "map (\<lambda>y. if k y = i then u y else y) ys = ys" by (rule find_key_None)
    then show ?thesis using True x by simp
  next
    case False
    then have "find (\<lambda>y. k y = i) ys = Some x" using Cons.prems(2) by simp
    moreover have "distinct (map k ys)" using Cons.prems(1) by simp
    ultimately have "sum_list (map w (map (\<lambda>y. if k y = i then u y else y) ys))
           = sum_list (map w ys) - w x + w (u x)" by (rule Cons.IH [rotated])
    then show ?thesis using False by simp
  qed
qed

lemma map_key_update:
  "(\<And>y. k (u y) = k y) \<Longrightarrow> map k (map (\<lambda>y. if k y = i then u y else y) xs) = map k xs"
  by (induction xs) simp_all

lemma adjust_speaker_ids: "map s_id (adjust_speaker sid ms n rs) = map s_id rs"
  by (induction rs) (simp_all add: adjust_speaker_def)

lemma list_all_map_step:
  "list_all P rs \<Longrightarrow> (\<And>r. r \<in> set rs \<Longrightarrow> P r \<Longrightarrow> Q (h r)) \<Longrightarrow> list_all Q (map h rs)"
  by (induction rs) simp_all

lemma reassign_consistent:
  assumes c: "ledger_consistent db" and re: "reassignSpeaker gid n db = Inr db'"
  shows "ledger_consistent db'"
proof (cases "find (\<lambda>g. g_id g = gid) (tbl_segments db)")
  case None
  then have "db' = db" using re by (simp add: reassignSpeaker_def split: if_splits)
  then show ?thesis using c by simp
next
  case (Some g)
  define d where "d = duration g"
  define h1 :: "speakers_row \<Rightarrow> speakers_row" where "h1 = (\<lambda>r. case g_speaker_id g of
                              None \<Rightarrow> r
                            | Some old \<Rightarrow>
                                if s_id r = old
                                then r\<lparr>s_total_duration_ms := s_total_duration_ms r + - d,
                                       s_segment_count := s_segment_count r + - 1\<rparr>
                                else r)"
  define h2 :: "speakers_row \<Rightarrow> speakers_row" where "h2 = (\<lambda>r. if s_id r = n
                            then r\<lparr>s_total_duration_ms := s_total_duration_ms r + d,
                                   s_segment_count := s_segment_count r + 1\<rparr>
                            else r)"
  define u :: "segments_row \<Rightarrow> segments_row" where "u = (\<lambda>x. x\<lparr>g_speaker_id := Some n\<rparr>)"
  define gs' where "gs' = map (\<lambda>x. if g_id x = gid then x\<lparr>g_speaker_id := Some n\<rparr> else x)
                            (tbl_segments db)"
  have gs'_u: "gs' = map (\<lambda>x. if g_id x = gid then u x else x) (tbl_segments db)"
    by (simp add: gs'_def u_def)
  have losing: "(case g_speaker_id g of
                   None \<Rightarrow> tbl_speakers db
                 | Some old \<Rightarrow> adjust_speaker old (- duration g) (- 1) (tbl_speakers db))
                = map h1 (tbl_speakers db)"
    by (cases "g_speaker_id g") (simp_all add: h1_def adjust_speaker_def d_def)
  have gaining: "adjust_speaker n (duration g) 1 (map h1 (tbl_speakers db))
                 = map (\<lambda>r. h2 (h1 r)) (tbl_speakers db)"
    by (simp add: adjust_speaker_def h2_def d_def comp_def)
  have db': "db' = db\<lparr>tbl_speakers := map (\<lambda>r. h2 (h1 r)) (tbl_speakers db), tbl_segments := gs'\<rparr>"
    using re Some by (simp add: reassignSpeaker_def Let_def losing gaining gs'_def
        split: if_splits)
  have hid: "s_id (h2 (h1 r)) = s_id r" for r
    by (simp add: h1_def h2_def split: option.splits)
  have htot: "s_total_duration_ms (h2 (h1 r)) =
                s_total_duration_ms r - credit duration (s_id r) g + credit duration (s_id r) (u g)"
    and hcnt: "s_segment_count (h2 (h1 r)) =
                s_segment_count r - credit (\<lambda>g. 1) (s_id r) g + credit (\<lambda>g. 1) (s_id r) (u g)"
    for r
    by (simp_all add: h1_def h2_def credit_def u_def d_def duration_def split: option.splits)
  have dg: "distinct (map g_id (tbl_segments db))" and ds: "distinct (map s_id (tbl_speakers db))"
    and st: "list_all (statistics_ok db) (tbl_speakers db)"
    using c by (simp_all add: ledger_consistent_def)
  have sums: "sum_list (map w gs') = sum_list (map w (tbl_segments db)) - w g + w (u g)"
    for w :: "segments_row \<Rightarrow> int"
    unfolding gs'_u by (rule sum_list_update_one [OF dg Some])
  have 1: "map s_id (tbl_speakers db') = map s_id (tbl_speakers db)"
    by (simp add: db' hid comp_def)
  have 2: "map g_id (tbl_segments db') = map g_id (tbl_segments db)"
    unfolding db' gs'_u by (simp add: map_key_update u_def)
  have 3: "list_all (statistics_ok db') (tbl_speakers db')"
  proof -
    have "list_all (statistics_ok db') (map (\<lambda>r. h2 (h1 r)) (tbl_speakers db))"
    proof (rule list_all_map_step [OF st])
      fix r assume "statistics_ok db r"
      then show "statistics_ok db' (h2 (h1 r))"
        by (simp add: statistics_ok_credit hid htot hcnt db' sums)
    qed
    then show ?thesis by (simp add: db')
  qed
  from 1 2 3 dg ds show ?thesis by (simp add: ledger_consistent_def)
qed

lemma set_field_consistent:
  assumes c: "ledger_consistent db" and se: "set_field stage write gid db = Inr db'"
    and w: "\<And>x. g_id (write x) = g_id x" "\<And>x. g_speaker_id (write x) = g_speaker_id x"
      "\<And>x. duration (write x) = duration x"
  shows "ledger_consistent db'"
proof (cases "find (\<lambda>g. g_id g = gid) (tbl_segments db)")
  case None
  then have "db' = db" using se by (simp add: set_field_def)
  then show ?thesis using c by simp
next
  case (Some g)
  define gs' where "gs' = map (\<lambda>x. if g_id x = gid then write x else x) (tbl_segments db)"
  have db': "db' = db\<lparr>tbl_segments := gs'\<rparr>"
    using se Some by (simp add: set_field_def gs'_def split: if_splits)
  have cr: "credit v sid (write x) = credit v sid x" if "\<And>y. v (write y) = v y" for v sid x
    using that by (simp add: credit_def w(2))
  have same: "map (credit v sid) gs' = map (credit v sid) (tbl_segments db)"
    if "\<And>y. v (write y) = v y" for v sid
    unfolding gs'_def using cr [of v, OF that] by simp
  have st: "statistics_ok db' = statistics_ok db"
    by (rule ext) (simp add: statistics_ok_credit db' same w(3))
  have ids: "map g_id gs' = map g_id (tbl_segments db)"
    unfolding gs'_def by (simp add: map_key_update w(1))
  have sp: "tbl_speakers db' = tbl_speakers db" and sg: "tbl_segments db' = gs'"
    by (simp_all add: db')
  show ?thesis
    using c unfolding ledger_consistent_def st sp sg ids .
qed

lemma append_segment_consistent:
  assumes c: "ledger_consistent db" and ap: "append_segment pid g db = Inr db'"
  shows "ledger_consistent db'"
proof -
  have fresh: "g_id g \<notin> set (map g_id (tbl_segments db))"
    using ap by (simp add: append_segment_def split: if_splits)
  define h :: "speakers_row \<Rightarrow> speakers_row" where
    "h = (\<lambda>r. case g_speaker_id g of
               None \<Rightarrow> r
             | Some sid \<Rightarrow>
                 if s_id r = sid
                 then r\<lparr>s_total_duration_ms := s_total_duration_ms r + duration g,
                        s_segment_count := s_segment_count r + 1\<rparr>
                 else r)"
  have db': "db' = db\<lparr>tbl_speakers := map h (tbl_speakers db),
                       tbl_segments := tbl_segments db @ [g]\<rparr>"
  proof (cases "g_speaker_id g")
    case None
    then have "map h (tbl_speakers db) = tbl_speakers db" by (simp add: h_def)
    then show ?thesis
      using ap None by (simp add: append_segment_def split: if_splits)
  next
    case (Some sid)
    then have "map h (tbl_speakers db) = adjust_speaker sid (duration g) 1 (tbl_speakers db)"
      by (simp add: h_def adjust_speaker_def)
    then show ?thesis
      using ap Some by (simp add: append_segment_def split: if_splits)
  qed
  have hid: "s_id (h r) = s_id r" for r
    by (simp add: h_def split: option.splits)
  have htot: "s_total_duration_ms (h r) = s_total_duration_ms r + credit duration (s_id r) g"
    and hcnt: "s_segment_count (h r) = s_segment_count r + credit (\<lambda>g. 1) (s_id r) g" for r
    by (simp_all add: h_def credit_def split: option.splits)
  have st: "list_all (statistics_ok db) (tbl_speakers db)"
    using c by (simp add: ledger_consistent_def)
  have "list_all (statistics_ok db') (map h (tbl_speakers db))"
  proof (rule list_all_map_step [OF st])
    fix r assume "statistics_ok db r"
    then show "statistics_ok db' (h r)"
      by (simp add: statistics_ok_credit hid htot hcnt db')
  qed
  then have 3: "list_all (statistics_ok db') (tbl_speakers db')"
    by (simp add: db')
  have "map s_id (map h (tbl_speakers db)) = map s_id (tbl_speakers db)"
    by (induction "tbl_speakers db") (simp_all add: hid)
  moreover have "tbl_speakers db' = map h (tbl_speakers db)"
    by (simp add: db')
  ultimately have "map s_id (tbl_speakers db') = map s_id (tbl_speakers db)"
    by (simp only:)
  then have 1: "distinct (map s_id (tbl_speakers db'))"
    using c by (simp only: ledger_consistent_def)
  have "map g_id (tbl_segments db') = map g_id (tbl_segments db) @ [g_id g]"
    by (simp add: db')
  then have 2: "distinct (map g_id (tbl_segments db'))"
    using c fresh by (simp add: ledger_consistent_def)
  from 1 2 3 show ?thesis by (simp only: ledger_consistent_def simp_thms)
qed

lemma appendSegments_consistent:
  "ledger_consistent db \<Longrightarrow> appendSegments pid gs db = Inr db' \<Longrightarrow> ledger_consistent db'"
proof (induction gs arbitrary: db)
  case Nil
  then show ?case by simp
next
  case (Cons g gs)
  from Cons.prems(2) obtain db1 where 1: "append_segment pid g db = Inr db1"
    and 2: "appendSegments pid gs db1 = Inr db'"
    by (cases "append_segment pid g db") simp_all
  from Cons.IH [OF append_segment_consistent [OF Cons.prems(1) 1] 2] show ?case .
qed

lemma ledger_step_consistent:
  assumes "ledger_consistent db" "ledger_step x db = Inr db'"
  shows "ledger_consistent db'"
proof (cases x)
  case (AppendSegments pid gs)
  then show ?thesis using assms appendSegments_consistent by simp
next
  case (ReassignSpeaker gid sid)
  then show ?thesis using assms reassign_consistent by simp
next
  case (SetTranslation gid tr)
  then have "set_field Translating (\<lambda>x. x\<lparr>g_translated_text := Some tr\<rparr>) gid db = Inr db'"
    using assms(2) by (simp add: setTranslation_def)
  then show ?thesis
    by (rule set_field_consistent [OF assms(1)]) (simp_all add: duration_def)
next
  case (SetDubbedAudio gid url)
  then have "set_field Dubbing (\<lambda>x. x\<lparr>g_dubbed_audio_url := Some url\<rparr>) gid db = Inr db'"
    using assms(2) by (simp add: setDubbedAudio_def)
  then show ?thesis
    by (rule set_field_consistent [OF assms(1)]) (simp_all add: duration_def)
qed

lemma run_ledger_consistent:
  "ledger_consistent db \<Longrightarrow> ledger_consistent (run_ledger xs db)"
proof (induction xs arbitrary: db)
  case Nil
  then show ?case by simp
next
  case (Cons x xs)
  have "ledger_consistent (case ledger_step x db of Inl e \<Rightarrow> db | Inr db' \<Rightarrow> db')"
    using Cons.prems ledger_step_consistent [OF Cons.prems]
    by (cases "ledger_step x db") simp_all
  from Cons.IH [OF this] show ?case by simp
qed

text \<open>
  C5. On a ledger in which the ids of the speakers and of the segments are distinct
  (they are primary keys) and the statistics of every speaker are in line with the
  segments, after any sequence of ledger operations (\<open>appendSegments\<close>,
  \<open>reassignSpeaker\<close>, \<open>setTranslation\<close>, \<open>setDubbedAudio\<close>, accepted or rejected), for
  every speaker \<open>total_duration_ms\<close> is the sum of \<open>end_ms - start_ms\<close> over the segments
  that reference it and \<open>segment_count\<close> is their number.
\<close>

theorem speaker_statistics_invariant:
  assumes "distinct (map s_id (tbl_speakers db))" and "distinct (map g_id (tbl_segments db))"
    and "\<forall>r \<in> set (tbl_speakers db).
           s_total_duration_ms r = (\<Sum>g \<leftarrow> referencing db (s_id r). g_end_ms g - g_start_ms g)
           \<and> s_segment_count r = int (length (referencing db (s_id r)))"
  shows "\<forall>r \<in> set (tbl_speakers (run_ledger xs db)).
           s_total_duration_ms r =
             (\<Sum>g \<leftarrow> referencing (run_ledger xs db) (s_id r). g_end_ms g - g_start_ms g)
           \<and> s_segment_count r = int (length (referencing (run_ledger xs db) (s_id r)))"
proof -
  have d: "duration = (\<lambda>g. g_end_ms g - g_start_ms g)"
    by (rule ext) (simp add: duration_def)
  have "ledger_consistent db"
    using assms by (simp add: ledger_consistent_def statistics_ok_def list_all_iff d)
  then have "ledger_consistent (run_ledger xs db)"
    by (rule run_ledger_consistent)
  then show ?thesis
    by (simp add: ledger_consistent_def statistics_ok_def list_all_iff d)
qed

lemmas ledger_examples =
  ledger_run_def ledger_db_def example_project_def example_speaker_def example_segment_def
  reassignSpeaker_def setTranslation_def set_field_def stage_of_def append_segment_def
  adjust_speaker_def duration_def referencing_def

text \<open>
  The segment from 1000 to 3000 of spk0 goes to spk1: spk0 loses 2000 ms and one
  segment, spk1 gains them. After the whole run spk0 has the new segment of 400 ms, and
  its total is the sum over the segments that reference it.
\<close>

theorem speaker_statistics_invariant_witness:
  "map s_total_duration_ms (tbl_speakers (run_ledger [ReassignSpeaker ''g0'' ''s1''] ledger_db))
     = [0, 3500]
   \<and> map s_segment_count (tbl_speakers (run_ledger [ReassignSpeaker ''g0'' ''s1''] ledger_db))
     = [0, 2]
   \<and> map s_total_duration_ms (tbl_speakers (run_ledger ledger_run ledger_db)) = [400, 3500]
   \<and> map s_segment_count (tbl_speakers (run_ledger ledger_run ledger_db)) = [1, 2]
   \<and> map g_speaker_id (tbl_segments (run_ledger ledger_run ledger_db))
     = [Some ''s1'', Some ''s1'', Some ''s0'']
   \<and> s_total_duration_ms (hd (tbl_speakers (run_ledger ledger_run ledger_db)))
     = (\<Sum>g \<leftarrow> referencing (run_ledger ledger_run ledger_db) ''s0''. g_end_ms g - g_start_ms g)"
proof -
  have h: "distinct (map s_id (tbl_speakers ledger_db))"
    "distinct (map g_id (tbl_segments ledger_db))"
    "\<forall>r \<in> set (tbl_speakers ledger_db).
           s_total_duration_ms r = (\<Sum>g \<leftarrow> referencing ledger_db (s_id r). g_end_ms g - g_start_ms g)
           \<and> s_segment_count r = int (length (referencing ledger_db (s_id r)))"
    by (simp_all add: ledger_examples)
  have r1: "map s_total_duration_ms (tbl_speakers (run_ledger [ReassignSpeaker ''g0'' ''s1''] ledger_db))
     = [0, 3500]"
    "map s_segment_count (tbl_speakers (run_ledger [ReassignSpeaker ''g0'' ''s1''] ledger_db))
     = [0, 2]"
    by (simp_all add: ledger_examples)
  have r2: "map s_total_duration_ms (tbl_speakers (run_ledger ledger_run ledger_db)) = [400, 3500]"
    "map s_segment_count (tbl_speakers (run_ledger ledger_run ledger_db)) = [1, 2]"
    "map g_speaker_id (tbl_segments (run_ledger ledger_run ledger_db))
     = [Some ''s1'', Some ''s1'', Some ''s0'']"
    "map s_id (tbl_speakers (run_ledger ledger_run ledger_db)) = [''s0'', ''s1'']"
    by (simp_all add: ledger_examples)
  from r2(4) have m: "hd (tbl_speakers (run_ledger ledger_run ledger_db))
                        \<in> set (tbl_speakers (run_ledger ledger_run ledger_db))"
    and i: "s_id (hd (tbl_speakers (run_ledger ledger_run ledger_db))) = ''s0''"
    by (cases "tbl_speakers (run_ledger ledger_run ledger_db)"; simp)+
  from speaker_statistics_invariant [OF h, of ledger_run] m
  have "s_total_duration_ms (hd (tbl_speakers (run_ledger ledger_run ledger_db)))
     = (\<Sum>g \<leftarrow> referencing (run_ledger ledger_run ledger_db)
                 (s_id (hd (tbl_speakers (run_ledger ledger_run ledger_db)))).
          g_end_ms g - g_start_ms g)"
    by blast
  then have 3: "s_total_duration_ms (hd (tbl_speakers (run_ledger ledger_run ledger_db)))
     = (\<Sum>g \<leftarrow> referencing (run_ledger ledger_run ledger_db) ''s0''. g_end_ms g - g_start_ms g)"
    by (simp only: i)
  from r1 r2(1,2,3) 3 show ?thesis by blast
qed

end
